theory Spec2Isabelle
  imports Complex_Main "HOL-Library.Sublist" "HOL-Library.List_Lexorder" "HOL-Library.Char_ord"
    "HOL-Library.Product_Lexorder" "HOL-Library.Option_ord"
begin

section \<open>Tables, cells and numbers\<close>

text \<open>
  The programs work on pandas tables. A text cell is a string or null; a numeric cell, as
  \<open>pd.to_numeric(..., errors="coerce")\<close> leaves it, is a number or null. Numbers are
  taken as exact rationals: rounding, overflow and the sign of zero are outside the model.
  The result of a division needs one more value, since numpy divides by zero without raising:
  \<open>0/0\<close> is NaN, which pandas reads as null, and \<open>x/0\<close> with \<open>x \<noteq> 0\<close> is an
  infinity, which is not null. The sign of that infinity is not tracked.
  Strings are sequences of bytes; the character classes below are the ASCII ones.
\<close>

type_synonym cell = "string option"

datatype float64 = NaN | Finite rat | Infinite

text \<open>The exceptions the modelled code can raise. A \<open>KeyError\<close> carries the names that
  were looked for and the columns of the table.\<close>

datatype error =
    KeyError "string list" "string list"
  | ValueError
  | TypeError
  | ParserError
  | AttributeError

definition and_then :: "error + 'a \<Rightarrow> ('a \<Rightarrow> error + 'b) \<Rightarrow> error + 'b" where
  "and_then r f = (case r of Inl e \<Rightarrow> Inl e | Inr x \<Rightarrow> f x)"

subsection \<open>Strings\<close>

text \<open>\<open>str.strip()\<close> removes leading and trailing whitespace; \<open>str.startswith\<close>;
  \<open>str.lower()\<close>.\<close>

definition isspace :: "char \<Rightarrow> bool" where
  "isspace c \<longleftrightarrow> c \<in> {CHR 0x09, CHR 0x0A, CHR 0x0B, CHR 0x0C, CHR 0x0D,
                        CHR 0x1C, CHR 0x1D, CHR 0x1E, CHR 0x1F, CHR 0x20}"

definition strip :: "string \<Rightarrow> string" where
  "strip s = rev (dropWhile isspace (rev (dropWhile isspace s)))"

definition startswith :: "string \<Rightarrow> string \<Rightarrow> bool" where
  "startswith s p \<longleftrightarrow> take (length p) s = p"

definition lower_char :: "char \<Rightarrow> char" where
  "lower_char c =
     (case map_of (zip ''ABCDEFGHIJKLMNOPQRSTUVWXYZ'' ''abcdefghijklmnopqrstuvwxyz'') c of
        Some l \<Rightarrow> l
      | None \<Rightarrow> c)"

definition lower :: "string \<Rightarrow> string" where
  "lower s = map lower_char s"

subsection \<open>Operations on columns and tables\<close>

text \<open>\<open>Series.sum()\<close> with the defaults \<open>skipna=True, min_count=0\<close>: nulls are left
  out, and the sum of no numbers is 0.\<close>

fun nansum :: "rat option list \<Rightarrow> rat" where
  "nansum [] = 0"
| "nansum (None # xs) = nansum xs"
| "nansum (Some x # xs) = x + nansum xs"

text \<open>The product of two numeric cells is null as soon as one of them is.\<close>

fun nanmul :: "rat option \<Rightarrow> rat option \<Rightarrow> rat option" where
  "nanmul (Some a) (Some b) = Some (a * b)"
| "nanmul _ _ = None"

text \<open>Division of two numpy floats: never raises.\<close>

definition true_divide :: "rat \<Rightarrow> rat \<Rightarrow> float64" where
  "true_divide n d = (if d \<noteq> 0 then Finite (n / d) else if n = 0 then NaN else Infinite)"

text \<open>The group keys of \<open>groupby(key)\<close>: each key once, in ascending order
  (\<open>sort=True\<close> is the default).\<close>

definition groupby_keys :: "('a \<Rightarrow> 'k::linorder) \<Rightarrow> 'a list \<Rightarrow> 'k list" where
  "groupby_keys k xs = sort (remdups (map k xs))"

text \<open>\<open>left.merge(right, on=key, how="left")\<close>: every left row, in order, once for each
  right row with the same key, and once with nulls on the right when there is none. pandas
  takes two null keys as equal, as equality on \<open>option\<close> does.\<close>

definition merge_left :: "('a \<Rightarrow> 'k) \<Rightarrow> ('b \<Rightarrow> 'k) \<Rightarrow> 'a list \<Rightarrow> 'b list \<Rightarrow> ('a \<times> 'b option) list" where
  "merge_left lk rk ls rs =
     concat (map (\<lambda>l. let ms = filter (\<lambda>r. rk r = lk l) rs
                        in if ms = [] then [(l, None)] else map (\<lambda>r. (l, Some r)) ms) ls)"

section \<open>Dictionary builder (load\_CES\_pandas.py, build\_dictionary)\<close>

text \<open>
  A table as read from a file: its header and its rows, a row holding one cell per column.
  \<open>cell_at\<close> reads the cell of a row under a column name (the first column of that name;
  headers with a repeated name are outside the model).
\<close>

record frame =
  columns :: "string list"
  rows :: "cell list list"

definition cell_at :: "string list \<Rightarrow> cell list \<Rightarrow> string \<Rightarrow> cell" where
  "cell_at cols row c = (case map_of (zip cols row) c of None \<Rightarrow> None | Some v \<Rightarrow> v)"

text \<open>The header after \<open>[c.strip().lower() for c in df.columns]\<close>.\<close>

definition normalise_columns :: "frame \<Rightarrow> frame" where
  "normalise_columns df = df\<lparr>columns := map (\<lambda>c. lower (strip c)) (columns df)\<rparr>"

text \<open>\<open>find_col(df, candidates)\<close>: the first candidate that is a column of the table; when
  there is none, a KeyError whose message lists the candidates and the columns.\<close>

definition find_col :: "string list \<Rightarrow> string list \<Rightarrow> error + string" where
  "find_col cols candidates =
     (case find (\<lambda>c. c \<in> set cols) candidates of
        Some c \<Rightarrow> Inr c
      | None \<Rightarrow> Inl (KeyError candidates cols))"

text \<open>The three tables reduced to the columns the dictionary needs, under their new names.\<close>

record series_row =
  s_series_id :: cell
  s_industry_code :: cell
  s_datatype_code :: cell
  s_seasonal :: cell

record industry_row =
  i_industry_code :: cell
  i_industry_name :: cell

record datatype_row =
  d_datatype_code :: cell
  d_datatype_text :: cell

text \<open>A row of the dictionary.\<close>

record dict_row =
  dict_series_id :: cell
  dict_industry_code :: cell
  dict_datatype_code :: cell
  dict_seasonal :: cell
  dict_industry_name :: cell
  dict_datatype_text :: cell

text \<open>
  The first half of \<open>build_dictionary\<close>: headers are normalised, the seven columns are
  looked up in the order of the source, and each table is cut down to its columns and renamed.
  Selecting \<open>"seasonal"\<close> from the series table raises pandas' own KeyError when the
  column is missing.
\<close>

definition select_tables ::
  "frame \<Rightarrow> frame \<Rightarrow> frame \<Rightarrow> error + (series_row list \<times> industry_row list \<times> datatype_row list)" where
  "select_tables series industry datatype =
     (let s = normalise_columns series; i = normalise_columns industry;
          d = normalise_columns datatype
      in
      and_then (find_col (columns s) [''series_id'']) (\<lambda>series_id_col.
      and_then (find_col (columns s) [''industry_code'', ''industry'', ''industry_cd'']) (\<lambda>industry_col.
      and_then (find_col (columns s) [''data_type_code'', ''data_type_code'', ''datatype'', ''datatype_cd''])
        (\<lambda>datatype_col.
      and_then (find_col (columns i) [''industry_code'', ''industry'', ''industry_cd'']) (\<lambda>industry_code_col.
      and_then (find_col (columns d) [''data_type_code'', ''data_type'', ''data_type_cd''])
        (\<lambda>datatype_code_col.
      and_then (find_col (columns i) [''industry_name'', ''industry_text'', ''industry_title''])
        (\<lambda>industry_name_col.
      and_then (find_col (columns d) [''data_type_text'', ''data_type_name'', ''data_type_title''])
        (\<lambda>datatype_text_col.
      if ''seasonal'' \<notin> set (columns s) then Inl (KeyError [''seasonal''] (columns s))
      else Inr
        (map (\<lambda>r. \<lparr>s_series_id = cell_at (columns s) r series_id_col,
                    s_industry_code = cell_at (columns s) r industry_col,
                    s_datatype_code = cell_at (columns s) r datatype_col,
                    s_seasonal = cell_at (columns s) r ''seasonal''\<rparr>) (rows s),
         map (\<lambda>r. \<lparr>i_industry_code = cell_at (columns i) r industry_code_col,
                    i_industry_name = cell_at (columns i) r industry_name_col\<rparr>) (rows i),
         map (\<lambda>r. \<lparr>d_datatype_code = cell_at (columns d) r datatype_code_col,
                    d_datatype_text = cell_at (columns d) r datatype_text_col\<rparr>) (rows d))))))))))"

text \<open>The second half: \<open>s.merge(i, on="industry_code", how="left")
  .merge(d, on="datatype_code", how="left")\<close>.\<close>

definition dict_merge :: "series_row list \<Rightarrow> industry_row list \<Rightarrow> datatype_row list \<Rightarrow> dict_row list" where
  "dict_merge s i d =
     map (\<lambda>((sr, im), dm).
            \<lparr>dict_series_id = s_series_id sr,
             dict_industry_code = s_industry_code sr,
             dict_datatype_code = s_datatype_code sr,
             dict_seasonal = s_seasonal sr,
             dict_industry_name = (case im of None \<Rightarrow> None | Some ir \<Rightarrow> i_industry_name ir),
             dict_datatype_text = (case dm of None \<Rightarrow> None | Some dr \<Rightarrow> d_datatype_text dr)\<rparr>)
       (merge_left (\<lambda>(sr, im). s_datatype_code sr) d_datatype_code
          (merge_left s_industry_code i_industry_code s i) d)"

definition build_dictionary :: "frame \<Rightarrow> frame \<Rightarrow> frame \<Rightarrow> error + dict_row list" where
  "build_dictionary series industry datatype =
     and_then (select_tables series industry datatype) (\<lambda>(s, i, d). Inr (dict_merge s i d))"

text \<open>
  The dictionary of prep\_CES\_pandas.py (\<open>main\<close>, the \<open>series_dict\<close> assignment): the
  same two left merges, on tables whose columns already have their final names; the industry
  table also brings \<open>naics_code\<close>.
\<close>

record prep_industry_row =
  p_industry_code :: cell
  p_naics_code :: cell
  p_industry_name :: cell

record prep_dict_row =
  pd_series_id :: cell
  pd_industry_code :: cell
  pd_datatype_code :: cell
  pd_seasonal :: cell
  pd_naics_code :: cell
  pd_industry_name :: cell
  pd_datatype_text :: cell

definition prep_series_dict :: "series_row list \<Rightarrow> prep_industry_row list \<Rightarrow> datatype_row list \<Rightarrow> prep_dict_row list" where
  "prep_series_dict series industry datatype =
     map (\<lambda>((sr, im), dm).
            \<lparr>pd_series_id = s_series_id sr,
             pd_industry_code = s_industry_code sr,
             pd_datatype_code = s_datatype_code sr,
             pd_seasonal = s_seasonal sr,
             pd_naics_code = (case im of None \<Rightarrow> None | Some ir \<Rightarrow> p_naics_code ir),
             pd_industry_name = (case im of None \<Rightarrow> None | Some ir \<Rightarrow> p_industry_name ir),
             pd_datatype_text = (case dm of None \<Rightarrow> None | Some dr \<Rightarrow> d_datatype_text dr)\<rparr>)
       (merge_left (\<lambda>(sr, im). s_datatype_code sr) d_datatype_code
          (merge_left s_industry_code p_industry_code series industry) datatype)"

text \<open>The cell \<open>field\<close> of the first row of a reference table whose key is \<open>k\<close>, null
  when no row has that key: what a left merge attaches when the keys of the table are unique.\<close>

definition lookup_cell :: "('r \<Rightarrow> cell) \<Rightarrow> ('r \<Rightarrow> cell) \<Rightarrow> 'r list \<Rightarrow> cell \<Rightarrow> cell" where
  "lookup_cell key field rs k = (case find (\<lambda>r. key r = k) rs of None \<Rightarrow> None | Some r \<Rightarrow> field r)"

section \<open>Classification matcher\<close>

text \<open>
  \<open>naics_mask\<close> (prep\_CES\_pandas.py), for one cell of the column. The value and the codes
  are stripped before they are compared. \<open>exact\<close> and \<open>prefixes\<close> are optional
  arguments; an absent or empty list adds nothing to the mask.
\<close>

definition naics_mask :: "cell \<Rightarrow> string list option \<Rightarrow> string list option \<Rightarrow> bool" where
  "naics_mask naics exact pfxs =
     (let s = map_option strip naics;
          m1 = (case exact of
                  None \<Rightarrow> False
                | Some xs \<Rightarrow> xs \<noteq> [] \<and>
                    (case s of None \<Rightarrow> False | Some v \<Rightarrow> v \<in> set (map strip xs)));
          m2 = (case pfxs of
                  None \<Rightarrow> False
                | Some ps \<Rightarrow> ps \<noteq> [] \<and>
                    (case s of None \<Rightarrow> False | Some v \<Rightarrow> list_ex (startswith v) (map strip ps)))
      in m1 \<or> m2)"

text \<open>
  \<open>code_matches\<close> (load\_CES\_pandas.py, \<open>main\<close>): one set of codes, each of them both
  an exact code and a prefix; a null cell is first replaced by the empty string.
\<close>

definition code_matches :: "string list \<Rightarrow> cell \<Rightarrow> bool" where
  "code_matches codes x =
     (let s = (case x of None \<Rightarrow> [] | Some v \<Rightarrow> v)
      in s \<in> set codes \<or> list_ex (startswith s) codes)"

text \<open>The codes of an optional argument.\<close>

definition codes_of :: "string list option \<Rightarrow> string list" where
  "codes_of a = (case a of None \<Rightarrow> [] | Some xs \<Rightarrow> xs)"

section \<open>Dates and the dataset extractor (load\_CES\_pandas.py)\<close>

subsection \<open>The monthly filter\<close>

text \<open>
  \<open>str.match(r"^M(0[1-9]|1[0-2])$")\<close>, which is Python's \<open>re.match\<close>: the letter M,
  then 01 to 09 or 10 to 12, then the end of the string, where \<open>$\<close> also matches just before
  a newline that ends the string.
\<close>

definition monthly_match :: "string \<Rightarrow> bool" where
  "monthly_match s =
     (case s of
        m # a # b # rest \<Rightarrow>
          m = CHR ''M''
          \<and> ((a = CHR ''0'' \<and> b \<in> set ''123456789'') \<or> (a = CHR ''1'' \<and> b \<in> set ''012''))
          \<and> (rest = [] \<or> rest = [CHR 0x0A])
      | _ \<Rightarrow> False)"

text \<open>The twelve monthly period codes.\<close>

definition monthly_codes :: "string list" where
  "monthly_codes = [''M01'', ''M02'', ''M03'', ''M04'', ''M05'', ''M06'',
                    ''M07'', ''M08'', ''M09'', ''M10'', ''M11'', ''M12'']"

subsection \<open>Integers and their text\<close>

text \<open>
  \<open>astype(int)\<close> on a column of strings applies Python's \<open>int\<close> to each of them:
  surrounding whitespace is ignored, a sign may come first, and the digits may be separated by
  single underscores; anything else raises ValueError (here: \<open>None\<close>).
\<close>

definition digit_val :: "char \<Rightarrow> nat option" where
  "digit_val c = map_of (zip ''0123456789'' [0, 1, 2, 3, 4, 5, 6, 7, 8, 9]) c"


fun parse_digits :: "string \<Rightarrow> nat \<Rightarrow> nat option" where
  "parse_digits [] acc = Some acc"
| "parse_digits [c] acc = map_option (\<lambda>v. 10 * acc + v) (digit_val c)"
| "parse_digits (c # d # ds) acc =
     (if c = CHR ''_''
      then (case digit_val d of None \<Rightarrow> None | Some v \<Rightarrow> parse_digits ds (10 * acc + v))
      else (case digit_val c of None \<Rightarrow> None | Some v \<Rightarrow> parse_digits (d # ds) (10 * acc + v)))"

definition unsigned :: "string \<Rightarrow> string" where
  "unsigned t = (if t \<noteq> [] \<and> (hd t = CHR ''-'' \<or> hd t = CHR ''+'') then tl t else t)"

definition digits_value :: "string \<Rightarrow> nat option" where
  "digits_value body =
     (case body of
        [] \<Rightarrow> None
      | d # ds \<Rightarrow> (case digit_val d of None \<Rightarrow> None | Some v \<Rightarrow> parse_digits ds v))"

definition py_int :: "string \<Rightarrow> int option" where
  "py_int s =
     (let t = strip s
      in map_option (\<lambda>n. if t \<noteq> [] \<and> hd t = CHR ''-'' then - int n else int n)
           (digits_value (unsigned t)))"

text \<open>\<open>astype(str)\<close> on integers, and \<open>str.zfill\<close>, which pads after a sign.\<close>

fun str_nat :: "nat \<Rightarrow> string" where
  "str_nat n = (if n < 10 then [''0123456789'' ! n] else str_nat (n div 10) @ [''0123456789'' ! (n mod 10)])"

declare str_nat.simps [simp del]

definition str_int :: "int \<Rightarrow> string" where
  "str_int i = (if i < 0 then CHR ''-'' # str_nat (nat (- i)) else str_nat (nat i))"

definition zfill :: "nat \<Rightarrow> string \<Rightarrow> string" where
  "zfill w s =
     (if w \<le> length s then s
      else if s \<noteq> [] \<and> (hd s = CHR ''+'' \<or> hd s = CHR ''-'')
           then hd s # replicate (w - length s) (CHR ''0'') @ tl s
           else replicate (w - length s) (CHR ''0'') @ s)"

subsection \<open>From (year, period) to a date\<close>

text \<open>
  The two digits of the month, as both date functions compute them:
  \<open>period.str.replace("M", "", regex=False).astype(int)\<close>, then
  \<open>month.astype(str).str.zfill(2)\<close>.
\<close>

definition month_text :: "string \<Rightarrow> error + string" where
  "month_text p =
     (case py_int (filter (\<lambda>c. c \<noteq> CHR ''M'') p) of
        None \<Rightarrow> Inl ValueError
      | Some month \<Rightarrow> Inr (zfill 2 (str_int month)))"

text \<open>
  \<open>make_monthly_date\<close> (load\_CES\_pandas.py) for one row. The function
  \<open>pd.to_datetime\<close> is a parameter: \<open>to_datetime s\<close> is the date that pandas reads from
  the text \<open>s\<close> under the format \<open>%Y-%m-%d\<close>, or \<open>None\<close> when \<open>s\<close> is no such
  date; with \<open>errors="coerce"\<close> that case gives a null date. The year column holds text; a
  null year gives no date text and so a null date. A null period cannot be turned into an
  integer.
\<close>

definition make_monthly_date :: "(string \<Rightarrow> 'dt option) \<Rightarrow> cell \<Rightarrow> cell \<Rightarrow> error + 'dt option" where
  "make_monthly_date to_datetime year period =
     (case period of
        None \<Rightarrow> Inl TypeError
      | Some p \<Rightarrow>
          and_then (month_text p) (\<lambda>mm.
            case year of
              None \<Rightarrow> Inr None
            | Some y \<Rightarrow> Inr (to_datetime (y @ ''-'' @ mm @ ''-01''))))"

text \<open>
  \<open>make_date\<close> (prep\_CES\_pandas.py) for one row: the year column holds integers, and
  \<open>pd.to_datetime\<close> is called without \<open>errors="coerce"\<close>, so a text that is no date
  raises.
\<close>

definition make_date :: "(string \<Rightarrow> 'dt option) \<Rightarrow> int \<Rightarrow> cell \<Rightarrow> error + 'dt" where
  "make_date to_datetime year period =
     (case period of
        None \<Rightarrow> Inl TypeError
      | Some p \<Rightarrow>
          and_then (month_text p) (\<lambda>mm.
            case to_datetime (str_int year @ ''-'' @ mm @ ''-01'') of
              None \<Rightarrow> Inl ParserError
            | Some d \<Rightarrow> Inr d))"

text \<open>A function applied to every row of a column raises as soon as it raises on one row.\<close>

fun series_apply :: "('a \<Rightarrow> error + 'b) \<Rightarrow> 'a list \<Rightarrow> error + 'b list" where
  "series_apply f [] = Inr []"
| "series_apply f (x # xs) =
     and_then (f x) (\<lambda>y. and_then (series_apply f xs) (\<lambda>ys. Inr (y # ys)))"

subsection \<open>The extractor\<close>

text \<open>A row of the observation table, every column read as text, and a row of the
  extracted table.\<close>

record raw_row =
  raw_series_id :: cell
  raw_year :: cell
  raw_period :: cell
  raw_value :: cell

record 'dt extract_row =
  x_date :: "'dt option"
  x_year :: cell
  x_period :: cell
  x_series_id :: cell
  x_seasonal :: cell
  x_industry_code :: cell
  x_industry_name :: cell
  x_datatype_code :: cell
  x_datatype_text :: cell
  x_value :: "rat option"

text \<open>Sort key of a column whose nulls come last (\<open>na_position="last"\<close>).\<close>

definition na_last :: "'a option \<Rightarrow> bool \<times> 'a option" where
  "na_last x = (x = None, x)"

text \<open>A column of the dictionary after the left merge: null where no dictionary row was
  attached.\<close>

definition dict_cell :: "(dict_row \<Rightarrow> cell) \<Rightarrow> dict_row option \<Rightarrow> cell" where
  "dict_cell field m = (case m of None \<Rightarrow> None | Some d \<Rightarrow> field d)"

text \<open>Step 1: keep the rows whose period matches the monthly pattern. A null period gives
  a null in the mask, which drops the row.\<close>

definition monthly_only :: "raw_row list \<Rightarrow> raw_row list" where
  "monthly_only data =
     filter (\<lambda>r. case raw_period r of None \<Rightarrow> False | Some p \<Rightarrow> monthly_match p) data"

text \<open>
  Steps 3 to 6: the left merge with the dictionary on the series identifier, the industry
  predicate, the datatype whitelist and the optional seasonal filter.
\<close>

definition extract_filter ::
  "raw_row list \<Rightarrow> dict_row list \<Rightarrow> (cell \<Rightarrow> bool) \<Rightarrow> string list \<Rightarrow> string option
     \<Rightarrow> (raw_row \<times> dict_row option) list" where
  "extract_filter data series_dict industry_code_predicate datatype_whitelist seasonal =
     (let df0 = merge_left raw_series_id dict_series_id (monthly_only data) series_dict;
          df1 = filter (\<lambda>(r, m). industry_code_predicate (dict_cell dict_industry_code m)) df0;
          df2 = filter (\<lambda>(r, m). case dict_cell dict_datatype_text m of
                                      None \<Rightarrow> False
                                    | Some t \<Rightarrow> t \<in> set datatype_whitelist) df1
      in case seasonal of
           None \<Rightarrow> df2
         | Some v \<Rightarrow> filter (\<lambda>(r, m). dict_cell dict_seasonal m = Some v) df2)"

text \<open>
  A row of the result: the date, the columns kept from the observation and from the
  dictionary, and the value turned into a number. \<open>to_numeric\<close> stands for
  \<open>pd.to_numeric(..., errors="coerce")\<close> on one text: the number it reads, or null.
\<close>

definition extract_row_of ::
  "(string \<Rightarrow> rat option) \<Rightarrow> 'dt option \<times> raw_row \<times> dict_row option \<Rightarrow> 'dt extract_row" where
  "extract_row_of to_numeric = (\<lambda>(d, r, m).
     \<lparr>x_date = d, x_year = raw_year r, x_period = raw_period r,
      x_series_id = raw_series_id r,
      x_seasonal = dict_cell dict_seasonal m,
      x_industry_code = dict_cell dict_industry_code m,
      x_industry_name = dict_cell dict_industry_name m,
      x_datatype_code = dict_cell dict_datatype_code m,
      x_datatype_text = dict_cell dict_datatype_text m,
      x_value = (case raw_value r of None \<Rightarrow> None | Some t \<Rightarrow> to_numeric t)\<rparr>)"

text \<open>
  \<open>extract_proxy_dataset\<close>: the dates are computed for the rows that are left, and the
  table is sorted by datatype text, industry code and date.
\<close>

definition extract_proxy_dataset ::
  "(string \<Rightarrow> rat option) \<Rightarrow> (string \<Rightarrow> ('dt::linorder) option) \<Rightarrow> raw_row list \<Rightarrow> dict_row list
     \<Rightarrow> (cell \<Rightarrow> bool) \<Rightarrow> string list \<Rightarrow> string option \<Rightarrow> error + 'dt extract_row list" where
  "extract_proxy_dataset to_numeric to_datetime data series_dict industry_code_predicate
       datatype_whitelist seasonal =
     (let df = extract_filter data series_dict industry_code_predicate datatype_whitelist seasonal
      in and_then
           (series_apply (\<lambda>(r, m). make_monthly_date to_datetime (raw_year r) (raw_period r)) df)
           (\<lambda>dates.
              Inr (sort_key (\<lambda>x. (na_last (x_datatype_text x), na_last (x_industry_code x),
                                    na_last (x_date x)))
                    (map (extract_row_of to_numeric) (zip dates df)))))"

text \<open>
  The run of load\_CES\_pandas.py (\<open>main\<close>) from the loaded tables on: the dictionary is
  built first, and the three proxy datasets are extracted from it, each with its own set of
  codes, the list of measures and no seasonal filter. Downloading, printing and writing the
  files are left out. An exception of \<open>build_dictionary\<close> ends the run before any
  extraction.
\<close>

definition mechanic_codes :: "string list" where
  "mechanic_codes = [''8111'']"

definition graphic_codes :: "string list" where
  "graphic_codes = [''54143'', ''541430'']"

definition software_codes :: "string list" where
  "software_codes = [''511210'', ''5415'']"

definition measures :: "string list" where
  "measures = [''All employees'', ''Average hourly earnings'', ''Average weekly hours'']"

definition load_main ::
  "(string \<Rightarrow> rat option) \<Rightarrow> (string \<Rightarrow> ('dt::linorder) option) \<Rightarrow> raw_row list \<Rightarrow> frame \<Rightarrow> frame
     \<Rightarrow> frame \<Rightarrow> error + ('dt extract_row list \<times> 'dt extract_row list \<times> 'dt extract_row list)" where
  "load_main to_numeric to_datetime data series industry datatype =
     and_then (build_dictionary series industry datatype) (\<lambda>series_dict.
     and_then (extract_proxy_dataset to_numeric to_datetime data series_dict
                 (code_matches mechanic_codes) measures None) (\<lambda>mechanic_df.
     and_then (extract_proxy_dataset to_numeric to_datetime data series_dict
                 (code_matches graphic_codes) measures None) (\<lambda>graphic_df.
     and_then (extract_proxy_dataset to_numeric to_datetime data series_dict
                 (code_matches software_codes) measures None) (\<lambda>software_df.
     Inr (mechanic_df, graphic_df, software_df)))))"

text \<open>
  The monthly filter of prep\_CES\_pandas.py (\<open>main\<close>): the series identifier and the
  period have been stripped before the same pattern is applied.
\<close>

definition prep_monthly_only :: "raw_row list \<Rightarrow> raw_row list" where
  "prep_monthly_only data =
     monthly_only (map (\<lambda>r. r\<lparr>raw_series_id := map_option strip (raw_series_id r),
                                raw_period := map_option strip (raw_period r)\<rparr>) data)"

section \<open>Weighted aggregator (prep\_CES\_pandas.py, collapse\_career)\<close>

text \<open>
  The rows handed to \<open>collapse_career\<close>: the columns it reads are \<open>date\<close>,
  \<open>industry_code\<close>, \<open>datatype_text\<close> and \<open>value\<close>. The date column is built by
  \<open>make_date\<close>, which raises instead of giving a null date, so a date is never null here.
\<close>

record 'd obs_row =
  date :: 'd
  industry_code :: cell
  datatype_text :: cell
  obs_value :: "rat option"

record 'd out_row =
  out_date :: 'd
  employment_thousands :: float64
  avg_hourly_earnings :: float64

definition EMP_TEXT :: string where
  "EMP_TEXT = ''ALL EMPLOYEES, THOUSANDS''"

definition AHE_TEXT :: string where
  "AHE_TEXT = ''AVERAGE HOURLY EARNINGS OF ALL EMPLOYEES''"

definition emp_rows :: "'d obs_row list \<Rightarrow> 'd obs_row list" where
  "emp_rows df = filter (\<lambda>r. datatype_text r = Some EMP_TEXT) df"

definition earn_rows :: "'d obs_row list \<Rightarrow> 'd obs_row list" where
  "earn_rows df = filter (\<lambda>r. datatype_text r = Some AHE_TEXT) df"

text \<open>\<open>emp_m\<close>: the employment rows grouped by date, their values summed.\<close>

definition emp_m :: "('d::linorder) obs_row list \<Rightarrow> ('d \<times> float64) list" where
  "emp_m df =
     map (\<lambda>d. (d, Finite (nansum (map obs_value (filter (\<lambda>r. date r = d) (emp_rows df))))))
       (groupby_keys date (emp_rows df))"

text \<open>The earnings rows after the merge with the employment rows on (date, industry code):
  each carries its date, its own value and the weight \<open>emp_weight_thousands\<close>, null where no
  employment row has the same date and industry code.\<close>

definition earn_merged :: "'d obs_row list \<Rightarrow> ('d \<times> rat option \<times> rat option) list" where
  "earn_merged df =
     map (\<lambda>(e, m). (date e, obs_value e, (case m of None \<Rightarrow> None | Some w \<Rightarrow> obs_value w)))
       (merge_left (\<lambda>r. (date r, industry_code r)) (\<lambda>r. (date r, industry_code r))
          (earn_rows df) (emp_rows df))"

text \<open>The function applied to each group \<open>g\<close>:
  \<open>(g["value"] * g["emp_weight_thousands"]).sum() / g["emp_weight_thousands"].sum()\<close>.\<close>

definition weighted_mean :: "(rat option \<times> rat option) list \<Rightarrow> float64" where
  "weighted_mean g =
     true_divide (nansum (map (\<lambda>(v, w). nanmul v w) g)) (nansum (map snd g))"

definition earn_group :: "'d \<Rightarrow> 'd obs_row list \<Rightarrow> (rat option \<times> rat option) list" where
  "earn_group d df = map snd (filter (\<lambda>(d', vw). d' = d) (earn_merged df))"

definition earn_m :: "('d::linorder) obs_row list \<Rightarrow> ('d \<times> float64) list" where
  "earn_m df = map (\<lambda>d. (d, weighted_mean (earn_group d df))) (groupby_keys fst (earn_merged df))"

text \<open>
  \<open>collapse_career\<close>. When no row is an earnings row, \<open>groupby("date").apply(...)\<close> has no
  group to apply the function to and gives back an empty DataFrame rather than a Series; a
  DataFrame has no \<open>to_frame\<close>, so the call on the next line raises AttributeError.
  Otherwise the employment totals are merged with the weighted means on the date, keeping
  every row of the totals, and sorted by date.
\<close>

definition collapse_career :: "('d::linorder) obs_row list \<Rightarrow> error + 'd out_row list" where
  "collapse_career df =
     (if earn_rows df = [] then Inl AttributeError
      else Inr (sort_key out_date
        (map (\<lambda>((d, e), m). \<lparr>out_date = d, employment_thousands = e,
                 avg_hourly_earnings = (case m of None \<Rightarrow> NaN | Some (d', a) \<Rightarrow> a)\<rparr>)
           (merge_left fst fst (emp_m df) (earn_m df)))))"

text \<open>The output row that \<open>collapse_career\<close> builds for a date \<open>d\<close> of the employment rows,
  written out directly; \<open>collapse_career_rows\<close> below proves that the merges produce exactly
  these rows.\<close>

definition out_at :: "('d::linorder) obs_row list \<Rightarrow> 'd \<Rightarrow> 'd out_row" where
  "out_at df d = \<lparr>out_date = d,
     employment_thousands = Finite (nansum (map obs_value (filter (\<lambda>r. date r = d) (emp_rows df)))),
     avg_hourly_earnings = (if d \<in> date ` set (earn_rows df) then weighted_mean (earn_group d df) else NaN)\<rparr>"

text \<open>The weighted average as the specification words it, for comparison with
  \<open>weighted_mean\<close>: both sums range over the rows of the group that have an earnings value and
  a weight.\<close>

definition spec_weighted_average :: "(rat option \<times> rat option) list \<Rightarrow> float64" where
  "spec_weighted_average g =
     (let q = filter (\<lambda>(v, w). v \<noteq> None \<and> w \<noteq> None) g
      in true_divide (\<Sum>(v, w)\<leftarrow>q. the v * the w) (\<Sum>(v, w)\<leftarrow>q. the w))"

section \<open>Example inputs\<close>

text \<open>One month with two industry codes, earnings (10, 20) and employment (100, 300), and a
  second month with employment only. Dates are numbered months.\<close>

definition df_two_codes :: "nat obs_row list" where
  "df_two_codes =
     [\<lparr>date = 2, industry_code = Some ''A'', datatype_text = Some EMP_TEXT, obs_value = Some 50\<rparr>,
      \<lparr>date = 1, industry_code = Some ''A'', datatype_text = Some EMP_TEXT, obs_value = Some 100\<rparr>,
      \<lparr>date = 1, industry_code = Some ''B'', datatype_text = Some EMP_TEXT, obs_value = Some 300\<rparr>,
      \<lparr>date = 1, industry_code = Some ''A'', datatype_text = Some AHE_TEXT, obs_value = Some 10\<rparr>,
      \<lparr>date = 1, industry_code = Some ''B'', datatype_text = Some AHE_TEXT, obs_value = Some 20\<rparr>]"

text \<open>A month whose only employment value is null.\<close>

definition df_null_employment :: "nat obs_row list" where
  "df_null_employment =
     [\<lparr>date = 1, industry_code = Some ''A'', datatype_text = Some EMP_TEXT, obs_value = None\<rparr>,
      \<lparr>date = 1, industry_code = Some ''A'', datatype_text = Some AHE_TEXT, obs_value = Some 10\<rparr>]"

text \<open>Employment in month 1 only, earnings in month 2 only.\<close>

definition df_earnings_only_date :: "nat obs_row list" where
  "df_earnings_only_date =
     [\<lparr>date = 1, industry_code = Some ''A'', datatype_text = Some EMP_TEXT, obs_value = Some 100\<rparr>,
      \<lparr>date = 2, industry_code = Some ''A'', datatype_text = Some AHE_TEXT, obs_value = Some 10\<rparr>]"

text \<open>Two industry codes with employment (100, 300); the second earnings value is null.\<close>

definition df_null_earnings :: "nat obs_row list" where
  "df_null_earnings =
     [\<lparr>date = 1, industry_code = Some ''A'', datatype_text = Some EMP_TEXT, obs_value = Some 100\<rparr>,
      \<lparr>date = 1, industry_code = Some ''B'', datatype_text = Some EMP_TEXT, obs_value = Some 300\<rparr>,
      \<lparr>date = 1, industry_code = Some ''A'', datatype_text = Some AHE_TEXT, obs_value = Some 10\<rparr>,
      \<lparr>date = 1, industry_code = Some ''B'', datatype_text = Some AHE_TEXT, obs_value = None\<rparr>]"

text \<open>Two industry codes whose employment values cancel.\<close>

definition df_cancelling_weights :: "nat obs_row list" where
  "df_cancelling_weights =
     [\<lparr>date = 1, industry_code = Some ''A'', datatype_text = Some EMP_TEXT, obs_value = Some 5\<rparr>,
      \<lparr>date = 1, industry_code = Some ''B'', datatype_text = Some EMP_TEXT, obs_value = Some (- 5)\<rparr>,
      \<lparr>date = 1, industry_code = Some ''A'', datatype_text = Some AHE_TEXT, obs_value = Some 10\<rparr>,
      \<lparr>date = 1, industry_code = Some ''B'', datatype_text = Some AHE_TEXT, obs_value = Some 20\<rparr>]"

text \<open>One weight is zero, the other earnings row has no employment row.\<close>

definition df_zero_weights :: "nat obs_row list" where
  "df_zero_weights =
     [\<lparr>date = 1, industry_code = Some ''A'', datatype_text = Some EMP_TEXT, obs_value = Some 0\<rparr>,
      \<lparr>date = 1, industry_code = Some ''A'', datatype_text = Some AHE_TEXT, obs_value = Some 10\<rparr>,
      \<lparr>date = 1, industry_code = Some ''B'', datatype_text = Some AHE_TEXT, obs_value = Some 20\<rparr>]"

text \<open>Three small reference tables: the second series has an industry code that the
  industry table lacks, the third a datatype code that the datatype table lacks. The first
  header has trailing blanks and capitals occur, as headers of the files do.\<close>

definition series_tbl :: frame where
  "series_tbl = \<lparr>columns = [''series_id        '', ''supersector_code'', ''industry_code'',
                            ''data_type_code'', ''seasonal''],
                 rows = [[Some ''CES0000000001'', Some ''00'', Some ''00000000'', Some ''01'', Some ''S''],
                         [Some ''CES9999999903'', Some ''99'', Some ''99999999'', Some ''03'', Some ''S''],
                         [Some ''CEU8081110001'', Some ''80'', Some ''80811100'', Some ''77'', Some ''U'']]\<rparr>"

definition industry_tbl :: frame where
  "industry_tbl = \<lparr>columns = [''industry_code'', ''naics_code'', ''Industry_Name''],
                   rows = [[Some ''00000000'', Some ''-'', Some ''Total nonfarm''],
                           [Some ''80811100'', Some ''8111'', Some ''Automotive repair and maintenance'']]\<rparr>"

definition datatype_tbl :: frame where
  "datatype_tbl = \<lparr>columns = [''data_type_code'', ''data_type_text''],
                   rows = [[Some ''01'', Some ''ALL EMPLOYEES, THOUSANDS''],
                           [Some ''03'', Some ''AVERAGE HOURLY EARNINGS OF ALL EMPLOYEES'']]\<rparr>"

text \<open>The same tables cut down to the columns of the dictionary.\<close>

definition series_rows_ex :: "series_row list" where
  "series_rows_ex =
     [\<lparr>s_series_id = Some ''CES0000000001'', s_industry_code = Some ''00000000'',
        s_datatype_code = Some ''01'', s_seasonal = Some ''S''\<rparr>,
      \<lparr>s_series_id = Some ''CES9999999903'', s_industry_code = Some ''99999999'',
        s_datatype_code = Some ''03'', s_seasonal = Some ''S''\<rparr>,
      \<lparr>s_series_id = Some ''CEU8081110001'', s_industry_code = Some ''80811100'',
        s_datatype_code = Some ''77'', s_seasonal = Some ''U''\<rparr>]"

definition industry_rows_ex :: "industry_row list" where
  "industry_rows_ex =
     [\<lparr>i_industry_code = Some ''00000000'', i_industry_name = Some ''Total nonfarm''\<rparr>,
      \<lparr>i_industry_code = Some ''80811100'', i_industry_name = Some ''Automotive repair and maintenance''\<rparr>]"

definition datatype_rows_ex :: "datatype_row list" where
  "datatype_rows_ex =
     [\<lparr>d_datatype_code = Some ''01'', d_datatype_text = Some ''ALL EMPLOYEES, THOUSANDS''\<rparr>,
      \<lparr>d_datatype_code = Some ''03'', d_datatype_text = Some ''AVERAGE HOURLY EARNINGS OF ALL EMPLOYEES''\<rparr>]"

definition prep_industry_rows_ex :: "prep_industry_row list" where
  "prep_industry_rows_ex =
     [\<lparr>p_industry_code = Some ''00000000'', p_naics_code = Some ''-'', p_industry_name = Some ''Total nonfarm''\<rparr>,
      \<lparr>p_industry_code = Some ''80811100'', p_naics_code = Some ''8111'',
        p_industry_name = Some ''Automotive repair and maintenance''\<rparr>]"

text \<open>An industry table none of whose columns has a name \<open>build_dictionary\<close> knows.\<close>

definition industry_tbl_unnamed :: frame where
  "industry_tbl_unnamed = \<lparr>columns = [''Code'', ''NAICS'', ''Name ''],
                           rows = [[Some ''00000000'', Some ''-'', Some ''Total nonfarm'']]\<rparr>"

text \<open>A reader of date texts for the examples: four digits, a hyphen, a month from 01 to 12
  and \<open>-01\<close> give the year and the month; any other text is no date.\<close>

definition first_of_month :: "string \<Rightarrow> (nat \<times> nat) option" where
  "first_of_month s =
     (if length s = 10 \<and> s ! 4 = CHR ''-'' \<and> drop 7 s = ''-01''
      then (case (those (map digit_val (take 4 s)), those (map digit_val (take 2 (drop 5 s)))) of
              (Some [a, b, c, d], Some [m1, m2]) \<Rightarrow>
                 if 1 \<le> 10 * m1 + m2 \<and> 10 * m1 + m2 \<le> 12
                 then Some (1000 * a + 100 * b + 10 * c + d, 10 * m1 + m2) else None
            | _ \<Rightarrow> None)
      else None)"

text \<open>A reader of numbers for the examples: whole numbers only.\<close>

definition whole_number :: "string \<Rightarrow> rat option" where
  "whole_number t = map_option of_int (py_int t)"

text \<open>Four observations of one series: a monthly one, an annual average (M13), one whose
  period code ends in a newline, and a quarterly one; and the dictionary row of the series.\<close>

definition data_ex :: "raw_row list" where
  "data_ex =
     [\<lparr>raw_series_id = Some ''CES0000000001'', raw_year = Some ''2020'', raw_period = Some ''M02'',
        raw_value = Some ''152523''\<rparr>,
      \<lparr>raw_series_id = Some ''CES0000000001'', raw_year = Some ''2020'', raw_period = Some ''M13'',
        raw_value = Some ''142186''\<rparr>,
      \<lparr>raw_series_id = Some ''CES0000000001'', raw_year = Some ''2020'',
        raw_period = Some (''M01'' @ [CHR 0x0A]), raw_value = Some ''152212''\<rparr>,
      \<lparr>raw_series_id = Some ''CES0000000001'', raw_year = Some ''2020'', raw_period = Some ''Q01'',
        raw_value = None\<rparr>]"

definition dict_ex :: "dict_row list" where
  "dict_ex =
     [\<lparr>dict_series_id = Some ''CES0000000001'', dict_industry_code = Some ''00000000'',
        dict_datatype_code = Some ''01'', dict_seasonal = Some ''S'',
        dict_industry_name = Some ''Total nonfarm'',
        dict_datatype_text = Some ''ALL EMPLOYEES, THOUSANDS''\<rparr>]"

section \<open>Properties of the table operations\<close>

lemma groupby_keys_distinct: "distinct (groupby_keys k xs)"
  by (simp add: groupby_keys_def)

lemma groupby_keys_sorted: "sorted (groupby_keys k xs)"
  by (simp add: groupby_keys_def)

lemma groupby_keys_set: "set (groupby_keys k xs) = k ` set xs"
  by (simp add: groupby_keys_def)

lemma filter_key_distinct:
  "distinct (map rk rs) \<Longrightarrow> filter (\<lambda>r. rk r = k) rs = [] \<or> (\<exists>r. filter (\<lambda>r. rk r = k) rs = [r])"
proof (induction rs)
  case Nil
  then show ?case by simp
next
  case (Cons a rs)
  show ?case
  proof (cases "rk a = k")
    case True
    with Cons.prems have "\<forall>r \<in> set rs. rk r \<noteq> k" by (auto simp: image_iff)
    then have "filter (\<lambda>r. rk r = k) rs = []" by (simp add: filter_empty_conv)
    with True show ?thesis by simp
  next
    case False
    with Cons show ?thesis by simp
  qed
qed

lemma find_via_filter: "find P xs = (case filter P xs of [] \<Rightarrow> None | x # _ \<Rightarrow> Some x)"
  by (induction xs) auto

lemma merge_left_distinct:
  assumes "distinct (map rk rs)"
  shows "merge_left lk rk ls rs = map (\<lambda>l. (l, find (\<lambda>r. rk r = lk l) rs)) ls"
proof -
  have "(let ms = filter (\<lambda>r. rk r = lk l) rs
          in if ms = [] then [(l, None)] else map (\<lambda>r. (l, Some r)) ms)
        = [(l, find (\<lambda>r. rk r = lk l) rs)]" for l
    using filter_key_distinct [OF assms, of "lk l"]
    by (auto simp: Let_def find_via_filter)
  then show ?thesis
    by (simp add: merge_left_def)
qed

lemma merge_left_left_rows: "fst ` set (merge_left lk rk ls rs) = set ls"
proof -
  have "fst ` set (let ms = filter (\<lambda>r. rk r = lk l) rs
          in if ms = [] then [(l, None)] else map (\<lambda>r. (l, Some r)) ms) = {l}" for l
    by (auto simp: Let_def image_iff filter_empty_conv)
  then show ?thesis
    by (simp add: merge_left_def image_UN)
qed

lemma find_keyed:
  "find (\<lambda>r. fst r = d) (map (\<lambda>k. (k, g k)) ks) = (if d \<in> set ks then Some (d, g d) else None)"
  by (induction ks) auto

section \<open>Properties of the classification matcher\<close>

lemma startswith_prefix: "startswith s p \<longleftrightarrow> prefix p s"
  by (auto simp: startswith_def prefix_def take_is_prefix) (metis append_eq_conv_conj)

text \<open>
  Claim C2 (amended). \<open>naics_mask\<close> is true exactly when the value is not null and, after
  surrounding whitespace is stripped from the value and from the codes, the value equals one
  of the exact codes or starts with one of the prefixes; where neither the value nor the codes
  carry surrounding whitespace, this is equality with an exact code or a prefix match on the
  value as it stands. \<open>code_matches\<close> is true exactly when the value, null read as the empty
  string, starts with one of its codes. The five examples of the specification hold.
\<close>

theorem naics_mask_semantics:
  "(naics_mask v exact pfxs \<longleftrightarrow>
      (\<exists>s. v = Some s \<and>
           (strip s \<in> strip ` set (codes_of exact)
            \<or> (\<exists>p \<in> set (codes_of pfxs). prefix (strip p) (strip s)))))
   \<and> ((\<forall>x \<in> set_option v \<union> set (codes_of exact) \<union> set (codes_of pfxs). strip x = x) \<longrightarrow>
        (naics_mask v exact pfxs \<longleftrightarrow>
           (\<exists>s. v = Some s \<and>
              (s \<in> set (codes_of exact) \<or> (\<exists>p \<in> set (codes_of pfxs). prefix p s)))))
   \<and> (code_matches codes v \<longleftrightarrow>
        (\<exists>c \<in> set codes. prefix c (case v of None \<Rightarrow> [] | Some s \<Rightarrow> s)))
   \<and> naics_mask (Some ''54143'') (Some [''54143'']) None
   \<and> \<not> naics_mask (Some ''541430'') (Some [''54143'']) None
   \<and> naics_mask (Some ''811192'') None (Some [''8111''])
   \<and> naics_mask (Some ''8111'') None (Some [''8111''])
   \<and> \<not> naics_mask (Some ''81129'') None (Some [''8111''])"
proof -
  have 1: "naics_mask v exact pfxs \<longleftrightarrow>
      (\<exists>s. v = Some s \<and>
           (strip s \<in> strip ` set (codes_of exact)
            \<or> (\<exists>p \<in> set (codes_of pfxs). prefix (strip p) (strip s))))"
    by (cases v; cases exact; cases pfxs)
       (auto simp: naics_mask_def codes_of_def list_ex_iff startswith_prefix)
  have 2: "naics_mask v exact pfxs \<longleftrightarrow>
           (\<exists>s. v = Some s \<and>
              (s \<in> set (codes_of exact) \<or> (\<exists>p \<in> set (codes_of pfxs). prefix p s)))"
    if "\<forall>x \<in> set_option v \<union> set (codes_of exact) \<union> set (codes_of pfxs). strip x = x"
    unfolding 1 using that by (cases v) (auto simp: image_iff)
  have 3: "code_matches codes v \<longleftrightarrow>
        (\<exists>c \<in> set codes. prefix c (case v of None \<Rightarrow> [] | Some s \<Rightarrow> s))"
    by (auto simp: code_matches_def Let_def list_ex_iff startswith_prefix)
  have 4: "naics_mask (Some ''54143'') (Some [''54143'']) None
      \<and> \<not> naics_mask (Some ''541430'') (Some [''54143'']) None
      \<and> naics_mask (Some ''811192'') None (Some [''8111''])
      \<and> naics_mask (Some ''8111'') None (Some [''8111''])
      \<and> \<not> naics_mask (Some ''81129'') None (Some [''8111''])"
    by (simp add: naics_mask_def strip_def isspace_def startswith_def)
  from 1 2 3 4 show ?thesis by blast
qed

theorem naics_mask_semantics_witness:
  "strip ''811192'' = ''811192'' \<and> strip ''8111'' = ''8111''
   \<and> prefix ''8111'' ''811192''
   \<and> naics_mask (Some ''811192'') None (Some [''8111''])
   \<and> code_matches [''8111''] (Some ''811192'')"
  using naics_mask_semantics [of "Some ''811192''" None "Some [''8111'']" "[''8111'']"]
  by (simp add: strip_def isspace_def codes_of_def)

text \<open>A value with a leading blank matches the exact code it does not equal.\<close>

theorem unstripped_value_counterexample:
  "naics_mask (Some '' 54143'') (Some [''54143'']) None \<and> '' 54143'' \<notin> set [''54143'']"
  by (simp add: naics_mask_def strip_def isspace_def)

section \<open>Properties of the dictionary builder\<close>

lemmas dictionary_defs = build_dictionary_def select_tables_def dict_merge_def merge_left_def
  normalise_columns_def find_col_def and_then_def cell_at_def lower_def lower_char_def strip_def
  isspace_def

lemma find_col_Inr_find:
  "find_col cols cands = Inr c \<longleftrightarrow> find (\<lambda>c. c \<in> set cols) cands = Some c"
  by (simp add: find_col_def split: option.splits)

lemma find_col_Inr:
  "find_col cols cands = Inr c \<longleftrightarrow>
     (\<exists>k<length cands. c = cands ! k \<and> c \<in> set cols \<and> (\<forall>j<k. cands ! j \<notin> set cols))"
  unfolding find_col_Inr_find find_Some_iff by auto

lemma find_col_Inl:
  "find_col cols cands = Inl e \<longleftrightarrow> e = KeyError cands cols \<and> set cands \<inter> set cols = {}"
proof (cases "find (\<lambda>c. c \<in> set cols) cands")
  case None
  then have "set cands \<inter> set cols = {}" by (auto simp: find_None_iff)
  with None show ?thesis by (auto simp: find_col_def)
next
  case (Some x)
  then have "x \<in> set cands \<inter> set cols" by (auto simp: find_Some_iff)
  with Some show ?thesis by (auto simp: find_col_def)
qed

lemma and_then_Inr: "and_then r f = Inr y \<longleftrightarrow> (\<exists>x. r = Inr x \<and> f x = Inr y)"
  by (cases r) (simp_all add: and_then_def)

lemma and_then_Inl: "and_then r f = Inl e \<longleftrightarrow> r = Inl e \<or> (\<exists>x. r = Inr x \<and> f x = Inl e)"
  by (cases r) (simp_all add: and_then_def)

lemma select_tables_Inr:
  assumes "select_tables series industry datatype = Inr (s, i, d)"
  shows "length s = length (rows series) \<and> length i = length (rows industry)
         \<and> length d = length (rows datatype)"
  using assms
  by (auto simp: select_tables_def Let_def and_then_Inr normalise_columns_def split: if_splits)

lemma select_tables_needs:
  assumes "select_tables series industry datatype = Inr t"
  shows "(\<forall>cands \<in> {[''series_id''], [''industry_code'', ''industry'', ''industry_cd''],
                      [''data_type_code'', ''data_type_code'', ''datatype'', ''datatype_cd'']}.
            \<exists>c. find_col (columns (normalise_columns series)) cands = Inr c)
       \<and> (\<forall>cands \<in> {[''industry_code'', ''industry'', ''industry_cd''],
                      [''industry_name'', ''industry_text'', ''industry_title'']}.
            \<exists>c. find_col (columns (normalise_columns industry)) cands = Inr c)
       \<and> (\<forall>cands \<in> {[''data_type_code'', ''data_type'', ''data_type_cd''],
                      [''data_type_text'', ''data_type_name'', ''data_type_title'']}.
            \<exists>c. find_col (columns (normalise_columns datatype)) cands = Inr c)"
  using assms
  by (simp add: select_tables_def Let_def and_then_Inr) blast

lemma select_tables_error:
  assumes "select_tables series industry datatype = Inl e"
  shows "\<exists>cands cols. e = KeyError cands cols"
  using assms
  by (auto simp: select_tables_def Let_def and_then_Inl find_col_Inl split: if_splits)

lemma lookup_cell_absent: "k \<notin> key ` set rs \<Longrightarrow> lookup_cell key field rs k = None"
proof -
  assume "k \<notin> key ` set rs"
  then have "find (\<lambda>r. key r = k) rs = None" by (auto simp: find_None_iff)
  then show ?thesis by (simp add: lookup_cell_def)
qed

lemma lookup_cell_present:
  "distinct (map key rs) \<Longrightarrow> r \<in> set rs \<Longrightarrow> lookup_cell key field rs (key r) = field r"
proof (induction rs)
  case Nil
  then show ?case by simp
next
  case (Cons a rs)
  then show ?case by (auto simp: lookup_cell_def image_iff)
qed

lemma dict_merge_rows:
  assumes "distinct (map i_industry_code i)" and "distinct (map d_datatype_code d)"
  shows "dict_merge s i d =
     map (\<lambda>sr. \<lparr>dict_series_id = s_series_id sr,
             dict_industry_code = s_industry_code sr,
             dict_datatype_code = s_datatype_code sr,
             dict_seasonal = s_seasonal sr,
             dict_industry_name = lookup_cell i_industry_code i_industry_name i (s_industry_code sr),
             dict_datatype_text = lookup_cell d_datatype_code d_datatype_text d (s_datatype_code sr)\<rparr>) s"
  by (simp add: dict_merge_def merge_left_distinct [OF assms(1)] merge_left_distinct [OF assms(2)]
      lookup_cell_def comp_def)

lemma prep_series_dict_rows:
  assumes "distinct (map p_industry_code i)" and "distinct (map d_datatype_code d)"
  shows "prep_series_dict s i d =
     map (\<lambda>sr. \<lparr>pd_series_id = s_series_id sr,
             pd_industry_code = s_industry_code sr,
             pd_datatype_code = s_datatype_code sr,
             pd_seasonal = s_seasonal sr,
             pd_naics_code = lookup_cell p_industry_code p_naics_code i (s_industry_code sr),
             pd_industry_name = lookup_cell p_industry_code p_industry_name i (s_industry_code sr),
             pd_datatype_text = lookup_cell d_datatype_code d_datatype_text d (s_datatype_code sr)\<rparr>) s"
  by (simp add: prep_series_dict_def merge_left_distinct [OF assms(1)] merge_left_distinct [OF assms(2)]
      lookup_cell_def comp_def)

lemma select_tables_ex:
  "select_tables series_tbl industry_tbl datatype_tbl = Inr (series_rows_ex, industry_rows_ex, datatype_rows_ex)"
  by (simp add: series_tbl_def industry_tbl_def datatype_tbl_def dictionary_defs
      series_rows_ex_def industry_rows_ex_def datatype_rows_ex_def)

text \<open>
  Claim C6. When the three tables have the columns \<open>build_dictionary\<close> looks for, and the
  industry and datatype tables have no code twice, the dictionary has exactly one row for each
  row of the series table, in the same order and with the same series identifier; a row whose
  industry code (datatype code) is not in the industry (datatype) table has a null industry
  name (datatype text), and a row whose code is in the table has the name (text) of that code.
  The same holds of the \<open>series_dict\<close> of prep\_CES\_pandas.py.
\<close>

theorem dictionary_left_join:
  assumes "select_tables series industry datatype = Inr (s, i, d)"
    and "distinct (map i_industry_code i)" and "distinct (map d_datatype_code d)"
    and "distinct (map p_industry_code ip)"
  shows "(\<exists>dict. build_dictionary series industry datatype = Inr dict
            \<and> length dict = length (rows series)
            \<and> map dict_series_id dict = map s_series_id s
            \<and> (\<forall>k < length dict.
                  (s_industry_code (s ! k) \<notin> i_industry_code ` set i \<longrightarrow> dict_industry_name (dict ! k) = None)
                \<and> (s_datatype_code (s ! k) \<notin> d_datatype_code ` set d \<longrightarrow> dict_datatype_text (dict ! k) = None)
                \<and> (\<forall>r \<in> set i. i_industry_code r = s_industry_code (s ! k)
                       \<longrightarrow> dict_industry_name (dict ! k) = i_industry_name r)
                \<and> (\<forall>r \<in> set d. d_datatype_code r = s_datatype_code (s ! k)
                       \<longrightarrow> dict_datatype_text (dict ! k) = d_datatype_text r)))
       \<and> length (prep_series_dict s ip d) = length s
       \<and> map pd_series_id (prep_series_dict s ip d) = map s_series_id s
       \<and> (\<forall>k < length s.
             (s_industry_code (s ! k) \<notin> p_industry_code ` set ip
                \<longrightarrow> pd_industry_name (prep_series_dict s ip d ! k) = None \<and> pd_naics_code (prep_series_dict s ip d ! k) = None)
           \<and> (s_datatype_code (s ! k) \<notin> d_datatype_code ` set d
                \<longrightarrow> pd_datatype_text (prep_series_dict s ip d ! k) = None))"
proof -
  have b: "build_dictionary series industry datatype = Inr (dict_merge s i d)"
    by (simp add: build_dictionary_def assms(1) and_then_def)
  have l: "length s = length (rows series)"
    using select_tables_Inr [OF assms(1)] by simp
  note dm = dict_merge_rows [OF assms(2,3), of s]
  note sd = prep_series_dict_rows [OF assms(4,3), of s]
  have 1: "length (dict_merge s i d) = length (rows series)"
    by (simp add: dm l)
  have 2: "map dict_series_id (dict_merge s i d) = map s_series_id s"
    by (simp add: dm comp_def)
  have 3: "dict_industry_name (dict_merge s i d ! k) = None"
    if "k < length s" "s_industry_code (s ! k) \<notin> i_industry_code ` set i" for k
    using that by (simp add: dm lookup_cell_absent)
  have 4: "dict_datatype_text (dict_merge s i d ! k) = None"
    if "k < length s" "s_datatype_code (s ! k) \<notin> d_datatype_code ` set d" for k
    using that by (simp add: dm lookup_cell_absent)
  have 5: "dict_industry_name (dict_merge s i d ! k) = i_industry_name r"
    if "k < length s" "r \<in> set i" "i_industry_code r = s_industry_code (s ! k)" for k r
    using that lookup_cell_present [OF assms(2) that(2), of i_industry_name] by (simp add: dm)
  have 6: "dict_datatype_text (dict_merge s i d ! k) = d_datatype_text r"
    if "k < length s" "r \<in> set d" "d_datatype_code r = s_datatype_code (s ! k)" for k r
    using that lookup_cell_present [OF assms(3) that(2), of d_datatype_text] by (simp add: dm)
  have 7: "length (prep_series_dict s ip d) = length s" by (simp add: sd)
  have 8: "map pd_series_id (prep_series_dict s ip d) = map s_series_id s" by (simp add: sd comp_def)
  have 9: "pd_industry_name (prep_series_dict s ip d ! k) = None \<and> pd_naics_code (prep_series_dict s ip d ! k) = None"
    if "k < length s" "s_industry_code (s ! k) \<notin> p_industry_code ` set ip" for k
    using that by (simp add: sd lookup_cell_absent)
  have 10: "pd_datatype_text (prep_series_dict s ip d ! k) = None"
    if "k < length s" "s_datatype_code (s ! k) \<notin> d_datatype_code ` set d" for k
    using that by (simp add: sd lookup_cell_absent)
  from 1 l have lk: "length (dict_merge s i d) = length s" by simp
  show ?thesis
    apply (intro conjI exI [of _ "dict_merge s i d"])
    using b 1 2 7 8 apply simp_all
    using 3 4 5 6 lk apply metis
    using 9 10 apply blast
    done
qed

theorem dictionary_left_join_witness:
  "select_tables series_tbl industry_tbl datatype_tbl = Inr (series_rows_ex, industry_rows_ex, datatype_rows_ex)
   \<and> distinct (map i_industry_code industry_rows_ex)
   \<and> distinct (map d_datatype_code datatype_rows_ex)
   \<and> distinct (map p_industry_code prep_industry_rows_ex)
   \<and> length (rows series_tbl) = 3
   \<and> length (prep_series_dict series_rows_ex prep_industry_rows_ex datatype_rows_ex) = 3
   \<and> map dict_industry_name (projr (build_dictionary series_tbl industry_tbl datatype_tbl))
       = [Some ''Total nonfarm'', None, Some ''Automotive repair and maintenance'']
   \<and> map dict_datatype_text (projr (build_dictionary series_tbl industry_tbl datatype_tbl))
       = [Some ''ALL EMPLOYEES, THOUSANDS'', Some ''AVERAGE HOURLY EARNINGS OF ALL EMPLOYEES'', None]"
proof -
  note h = select_tables_ex
  have d1: "distinct (map i_industry_code industry_rows_ex)"
    by (simp add: industry_rows_ex_def)
  have d2: "distinct (map d_datatype_code datatype_rows_ex)"
    by (simp add: datatype_rows_ex_def)
  have d3: "distinct (map p_industry_code prep_industry_rows_ex)"
    by (simp add: prep_industry_rows_ex_def)
  have b: "map dict_industry_name (projr (build_dictionary series_tbl industry_tbl datatype_tbl))
       = [Some ''Total nonfarm'', None, Some ''Automotive repair and maintenance'']
   \<and> map dict_datatype_text (projr (build_dictionary series_tbl industry_tbl datatype_tbl))
       = [Some ''ALL EMPLOYEES, THOUSANDS'', Some ''AVERAGE HOURLY EARNINGS OF ALL EMPLOYEES'', None]"
    by (simp add: build_dictionary_def h and_then_def dict_merge_def merge_left_def
        series_rows_ex_def industry_rows_ex_def datatype_rows_ex_def)
  have l: "length (rows series_tbl) = 3"
    by (simp add: series_tbl_def)
  have ls: "length series_rows_ex = 3"
    by (simp add: series_rows_ex_def)
  from dictionary_left_join [OF h d1 d2 d3]
  have "length (prep_series_dict series_rows_ex prep_industry_rows_ex datatype_rows_ex)
          = length series_rows_ex"
    by blast
  with h d1 d2 d3 b l ls show ?thesis by simp
qed

text \<open>
  Claim C10. \<open>find_col\<close> returns the first candidate that is a column of the table, and
  raises exactly when no candidate is one; the error names the candidates tried (and the
  columns found). When any of the seven lookups of \<open>build_dictionary\<close> has no candidate in
  its table, \<open>build_dictionary\<close> ends in that kind of error and returns no dictionary, and
  the run of \<open>main\<close> ends in the same error: no proxy dataset is extracted.
\<close>

theorem find_col_first_candidate:
  "(find_col cols cands = Inr c \<longleftrightarrow>
      (\<exists>k<length cands. c = cands ! k \<and> c \<in> set cols \<and> (\<forall>j<k. cands ! j \<notin> set cols)))
   \<and> ((\<exists>e. find_col cols cands = Inl e) \<longleftrightarrow> set cands \<inter> set cols = {})
   \<and> (find_col cols cands = Inl e \<longrightarrow> e = KeyError cands cols)
   \<and> ((\<exists>cs \<in> {[''series_id''], [''industry_code'', ''industry'', ''industry_cd''],
                  [''data_type_code'', ''data_type_code'', ''datatype'', ''datatype_cd'']}.
          set cs \<inter> set (columns (normalise_columns series)) = {})
       \<or> (\<exists>cs \<in> {[''industry_code'', ''industry'', ''industry_cd''],
                    [''industry_name'', ''industry_text'', ''industry_title'']}.
          set cs \<inter> set (columns (normalise_columns industry)) = {})
       \<or> (\<exists>cs \<in> {[''data_type_code'', ''data_type'', ''data_type_cd''],
                    [''data_type_text'', ''data_type_name'', ''data_type_title'']}.
          set cs \<inter> set (columns (normalise_columns datatype)) = {})
       \<longrightarrow> (\<exists>cs cl. build_dictionary series industry datatype = Inl (KeyError cs cl)
                    \<and> load_main to_numeric to_datetime data series industry datatype
                        = Inl (KeyError cs cl)))"
proof -
  have 1: "(\<exists>e. find_col cols cands = Inl e) \<longleftrightarrow> set cands \<inter> set cols = {}"
    by (auto simp: find_col_Inl)
  have 2: "find_col cols cands = Inl e \<longrightarrow> e = KeyError cands cols"
    by (simp add: find_col_Inl)
  have 3: "\<exists>cs cl. build_dictionary series industry datatype = Inl (KeyError cs cl)
                    \<and> load_main to_numeric to_datetime data series industry datatype
                        = Inl (KeyError cs cl)"
    if bad: "(\<exists>cs \<in> {[''series_id''], [''industry_code'', ''industry'', ''industry_cd''],
                  [''data_type_code'', ''data_type_code'', ''datatype'', ''datatype_cd'']}.
          set cs \<inter> set (columns (normalise_columns series)) = {})
       \<or> (\<exists>cs \<in> {[''industry_code'', ''industry'', ''industry_cd''],
                    [''industry_name'', ''industry_text'', ''industry_title'']}.
          set cs \<inter> set (columns (normalise_columns industry)) = {})
       \<or> (\<exists>cs \<in> {[''data_type_code'', ''data_type'', ''data_type_cd''],
                    [''data_type_text'', ''data_type_name'', ''data_type_title'']}.
          set cs \<inter> set (columns (normalise_columns datatype)) = {})"
  proof (cases "select_tables series industry datatype")
    case (Inl e)
    with select_tables_error [OF Inl] show ?thesis
      by (auto simp: load_main_def build_dictionary_def and_then_def)
  next
    case (Inr t)
    note n = select_tables_needs [OF Inr]
    have "set cs \<inter> set cl \<noteq> {}" if "find_col cl cs = Inr x" for cs cl x
      using that find_col_Inl [of cl cs "KeyError cs cl"] by auto
    with n bad show ?thesis by blast
  qed
  from find_col_Inr 1 2 3 show ?thesis by blast
qed

theorem find_col_first_candidate_witness:
  "find_col [''series_id'', ''industry''] [''industry_code'', ''industry'', ''industry_cd''] = Inr ''industry''
   \<and> set [''industry_code'', ''industry'', ''industry_cd''] \<inter> set (columns (normalise_columns industry_tbl_unnamed)) = {}
   \<and> find_col (columns (normalise_columns industry_tbl_unnamed)) [''industry_code'', ''industry'', ''industry_cd'']
       = Inl (KeyError [''industry_code'', ''industry'', ''industry_cd''] [''code'', ''naics'', ''name''])
   \<and> build_dictionary series_tbl industry_tbl_unnamed datatype_tbl
       = Inl (KeyError [''industry_code'', ''industry'', ''industry_cd''] [''code'', ''naics'', ''name''])
   \<and> load_main whole_number first_of_month data_ex series_tbl industry_tbl_unnamed datatype_tbl
       = Inl (KeyError [''industry_code'', ''industry'', ''industry_cd''] [''code'', ''naics'', ''name''])"
proof -
  have b: "build_dictionary series_tbl industry_tbl_unnamed datatype_tbl
       = Inl (KeyError [''industry_code'', ''industry'', ''industry_cd''] [''code'', ''naics'', ''name''])"
    by (simp add: series_tbl_def industry_tbl_unnamed_def datatype_tbl_def dictionary_defs)
  have m: "load_main whole_number first_of_month data_ex series_tbl industry_tbl_unnamed datatype_tbl
       = Inl (KeyError [''industry_code'', ''industry'', ''industry_cd''] [''code'', ''naics'', ''name''])"
    by (simp add: load_main_def b and_then_def)
  have f: "find_col [''series_id'', ''industry''] [''industry_code'', ''industry'', ''industry_cd'']
       = Inr ''industry''
     \<and> set [''industry_code'', ''industry'', ''industry_cd'']
          \<inter> set (columns (normalise_columns industry_tbl_unnamed)) = {}
     \<and> find_col (columns (normalise_columns industry_tbl_unnamed))
          [''industry_code'', ''industry'', ''industry_cd'']
       = Inl (KeyError [''industry_code'', ''industry'', ''industry_cd''] [''code'', ''naics'', ''name''])"
    by (simp add: industry_tbl_unnamed_def normalise_columns_def find_col_def lower_def lower_char_def
        strip_def isspace_def)
  from b m f find_col_first_candidate [of "columns (normalise_columns industry_tbl_unnamed)"
      "[''industry_code'', ''industry'', ''industry_cd'']" "''industry''"
      "KeyError [''industry_code'', ''industry'', ''industry_cd''] [''code'', ''naics'', ''name'']"
      series_tbl industry_tbl_unnamed datatype_tbl whole_number first_of_month data_ex]
  show ?thesis by blast
qed

section \<open>Properties of the aggregator\<close>

lemma earn_merged_dates: "fst ` set (earn_merged df) = date ` set (earn_rows df)"
proof -
  have "fst ` set (earn_merged df) = date ` fst ` set (merge_left (\<lambda>r. (date r, industry_code r))
          (\<lambda>r. (date r, industry_code r)) (earn_rows df) (emp_rows df))"
    by (force simp: earn_merged_def image_iff split_def)
  then show ?thesis by (simp add: merge_left_left_rows)
qed

lemma collapse_career_rows:
  assumes "collapse_career df = Inr out"
  shows "out = map (out_at df) (groupby_keys date (emp_rows df))"
proof -
  let ?f = "\<lambda>((d, e), m). \<lparr>out_date = d, employment_thousands = e,
                 avg_hourly_earnings = (case m of None \<Rightarrow> NaN | Some (d', a) \<Rightarrow> a)\<rparr>"
  let ?mg = "merge_left fst fst (emp_m df) (earn_m df)"
  have d: "distinct (map fst (earn_m df))"
    by (simp add: earn_m_def comp_def groupby_keys_distinct)
  have "map ?f ?mg = map (out_at df) (groupby_keys date (emp_rows df))"
    unfolding merge_left_distinct [OF d]
    by (simp add: emp_m_def earn_m_def find_keyed out_at_def groupby_keys_set earn_merged_dates)
  moreover have "sort_key out_date (map (out_at df) (groupby_keys date (emp_rows df)))
      = map (out_at df) (groupby_keys date (emp_rows df))"
    by (rule sort_key_id_if_sorted) (simp add: comp_def out_at_def groupby_keys_sorted)
  ultimately show ?thesis
    using assms by (simp add: collapse_career_def split: if_splits)
qed

lemma nansum_non_null:
  "nansum (map f xs) = (\<Sum>x\<leftarrow>filter (\<lambda>x. f x \<noteq> None) xs. the (f x))"
  by (induction xs) (auto split: option.splits)

lemma collapse_career_dates:
  assumes "collapse_career df = Inr out"
  shows "map out_date out = groupby_keys date (emp_rows df)"
  unfolding collapse_career_rows [OF assms] by (simp add: comp_def out_at_def)

lemma collapse_career_total:
  "earn_rows df \<noteq> [] \<Longrightarrow> \<exists>out. collapse_career df = Inr out"
  by (simp add: collapse_career_def)

lemmas aggregator_defs = collapse_career_def earn_rows_def emp_rows_def EMP_TEXT_def AHE_TEXT_def
    merge_left_def emp_m_def earn_m_def earn_merged_def earn_group_def groupby_keys_def
    weighted_mean_def true_divide_def

lemma collapse_two_codes:
  "collapse_career df_two_codes =
     Inr [\<lparr>out_date = 1, employment_thousands = Finite 400, avg_hourly_earnings = Finite 17.5\<rparr>,
          \<lparr>out_date = 2, employment_thousands = Finite 50, avg_hourly_earnings = NaN\<rparr>]"
  by (simp add: df_two_codes_def aggregator_defs)

lemma collapse_career_mem:
  assumes "collapse_career df = Inr out"
  shows "r \<in> set out \<longleftrightarrow> (\<exists>d \<in> date ` set (emp_rows df). r = out_at df d)"
  unfolding collapse_career_rows [OF assms] by (auto simp: groupby_keys_set)

lemma nansum_products:
  "nansum (map (\<lambda>(v, w). nanmul v w) g)
     = (\<Sum>(v, w)\<leftarrow>filter (\<lambda>(v, w). v \<noteq> None \<and> w \<noteq> None) g. the v * the w)"
proof (induction g)
  case Nil
  then show ?case by simp
next
  case (Cons p g)
  obtain v w where p: "p = (v, w)" by (cases p)
  show ?case using Cons by (cases v; cases w) (simp_all add: p)
qed

lemma nansum_weights:
  "nansum (map snd g) = (\<Sum>(v, w)\<leftarrow>filter (\<lambda>(v, w). w \<noteq> None) g. the w)"
  by (simp add: nansum_non_null split_def)

lemma nansum_null_or_zero:
  assumes "\<forall>(v, w) \<in> set g. w = None \<or> w = Some 0"
  shows "nansum (map snd g) = 0 \<and> nansum (map (\<lambda>(v, w). nanmul v w) g) = 0"
  using assms
proof (induction g)
  case Nil
  then show ?case by simp
next
  case (Cons p g)
  obtain v w where p: "p = (v, w)" by (cases p)
  from Cons.prems have "w = None \<or> w = Some 0" by (simp add: p)
  moreover from Cons have "nansum (map snd g) = 0 \<and> nansum (map (\<lambda>(v, w). nanmul v w) g) = 0"
    by simp
  ultimately show ?case by (cases v) (auto simp: p)
qed

lemma earn_group_no_rows:
  assumes "d \<notin> date ` set (earn_rows df)"
  shows "earn_group d df = []"
proof -
  from assms have "d \<notin> fst ` set (earn_merged df)"
    using earn_merged_dates [of df] by simp
  then have "\<forall>x \<in> set (earn_merged df). fst x \<noteq> d" by force
  then have "filter (\<lambda>(d', vw). d' = d) (earn_merged df) = []"
    by (auto simp: filter_empty_conv)
  then show ?thesis by (simp add: earn_group_def)
qed

lemma earn_group_rows:
  "earn_group d df =
     concat (map (\<lambda>e. let ms = filter (\<lambda>m. date m = d \<and> industry_code m = industry_code e) (emp_rows df)
                        in if ms = [] then [(obs_value e, None)]
                           else map (\<lambda>m. (obs_value e, obs_value m)) ms)
                 (filter (\<lambda>e. date e = d) (earn_rows df)))"
proof -
  have "map snd (filter (\<lambda>(d', vw). d' = d)
          (map (\<lambda>(e, m). (date e, obs_value e, (case m of None \<Rightarrow> None | Some w \<Rightarrow> obs_value w)))
             (merge_left (\<lambda>r. (date r, industry_code r)) (\<lambda>r. (date r, industry_code r)) es ms)))
        = concat (map (\<lambda>e. let xs = filter (\<lambda>m. date m = d \<and> industry_code m = industry_code e) ms
                        in if xs = [] then [(obs_value e, None)]
                           else map (\<lambda>m. (obs_value e, obs_value m)) xs)
                 (filter (\<lambda>e. date e = d) es))" for es ms :: "'a obs_row list"
  proof (induction es)
    case Nil
    then show ?case by (simp add: merge_left_def)
  next
    case (Cons e es)
    have step: "merge_left lk rk (e # es) ms
        = (let xs = filter (\<lambda>r. rk r = lk e) ms
            in if xs = [] then [(e, None)] else map (\<lambda>r. (e, Some r)) xs) @ merge_left lk rk es ms"
      for lk rk :: "'a obs_row \<Rightarrow> 'a \<times> cell"
      by (simp add: merge_left_def)
    show ?case
    proof (cases "date e = d")
      case True
      then have "filter (\<lambda>r. (date r, industry_code r) = (date e, industry_code e)) ms
          = filter (\<lambda>m. date m = d \<and> industry_code m = industry_code e) ms"
        by simp
      with True Cons show ?thesis
        by (simp add: step Let_def comp_def filter_map)
    next
      case False
      then show ?thesis using Cons
        by (simp add: step Let_def comp_def filter_map)
    qed
  qed
  then show ?thesis by (simp add: earn_group_def earn_merged_def)
qed

lemma collapse_null_employment:
  "collapse_career df_null_employment =
     Inr [\<lparr>out_date = 1, employment_thousands = Finite 0, avg_hourly_earnings = NaN\<rparr>]"
  by (simp add: df_null_employment_def aggregator_defs)

lemma collapse_earnings_only_date:
  "collapse_career df_earnings_only_date =
     Inr [\<lparr>out_date = 1, employment_thousands = Finite 100, avg_hourly_earnings = NaN\<rparr>]"
  by (simp add: df_earnings_only_date_def aggregator_defs)

lemma collapse_zero_weights:
  "collapse_career df_zero_weights =
     Inr [\<lparr>out_date = 1, employment_thousands = Finite 0, avg_hourly_earnings = NaN\<rparr>]"
  by (simp add: df_zero_weights_def aggregator_defs)

text \<open>
  What \<open>collapse_career\<close> computes for a date with earnings rows: the sum of earnings times
  weight over the merged rows that have both, divided by the sum of the weights over all
  merged rows that have a weight, whether or not their earnings value is null. It is the
  specification's quotient whenever no row with a weight has a null earnings value, as in the
  specification's example: earnings (10, 20), weights (100, 300), result 17.5.
\<close>

theorem weighted_average_formula:
  assumes "collapse_career df = Inr out" and "r \<in> set out"
    and "out_date r \<in> date ` set (earn_rows df)"
  shows "avg_hourly_earnings r =
           true_divide
             (\<Sum>(v, w)\<leftarrow>filter (\<lambda>(v, w). v \<noteq> None \<and> w \<noteq> None) (earn_group (out_date r) df). the v * the w)
             (\<Sum>(v, w)\<leftarrow>filter (\<lambda>(v, w). w \<noteq> None) (earn_group (out_date r) df). the w)
         \<and> ((\<forall>(v, w) \<in> set (earn_group (out_date r) df). w \<noteq> None \<longrightarrow> v \<noteq> None)
              \<longrightarrow> avg_hourly_earnings r = spec_weighted_average (earn_group (out_date r) df))"
proof -
  let ?g = "earn_group (out_date r) df"
  from assms(1,2) obtain d where r: "r = out_at df d"
    by (auto simp: collapse_career_mem)
  with assms(3) have avg: "avg_hourly_earnings r = weighted_mean ?g"
    by (simp add: out_at_def)
  have 1: "weighted_mean ?g = true_divide
             (\<Sum>(v, w)\<leftarrow>filter (\<lambda>(v, w). v \<noteq> None \<and> w \<noteq> None) ?g. the v * the w)
             (\<Sum>(v, w)\<leftarrow>filter (\<lambda>(v, w). w \<noteq> None) ?g. the w)"
    by (simp only: weighted_mean_def nansum_products nansum_weights)
  have "filter (\<lambda>(v, w). w \<noteq> None) ?g = filter (\<lambda>(v, w). v \<noteq> None \<and> w \<noteq> None) ?g"
    if "\<forall>(v, w) \<in> set ?g. w \<noteq> None \<longrightarrow> v \<noteq> None"
    using that by (intro filter_cong) auto
  then have "weighted_mean ?g = spec_weighted_average ?g"
    if "\<forall>(v, w) \<in> set ?g. w \<noteq> None \<longrightarrow> v \<noteq> None"
    using that by (simp add: 1 spec_weighted_average_def Let_def)
  with avg 1 show ?thesis by simp
qed

theorem weighted_average_example:
  "collapse_career df_two_codes =
     Inr [\<lparr>out_date = 1, employment_thousands = Finite 400, avg_hourly_earnings = Finite 17.5\<rparr>,
          \<lparr>out_date = 2, employment_thousands = Finite 50, avg_hourly_earnings = NaN\<rparr>]
   \<and> earn_group 1 df_two_codes = [(Some 10, Some 100), (Some 20, Some 300)]
   \<and> spec_weighted_average (earn_group 1 df_two_codes) = Finite 17.5"
proof -
  note h = collapse_two_codes
  have g: "earn_group 1 df_two_codes = [(Some 10, Some 100), (Some 20, Some 300)]"
    by (simp add: df_two_codes_def aggregator_defs)
  have d: "(1::nat) \<in> date ` set (earn_rows df_two_codes)"
    by (simp add: df_two_codes_def aggregator_defs)
  show ?thesis
    using h g weighted_average_formula [OF h, of
      "\<lparr>out_date = 1, employment_thousands = Finite 400, avg_hourly_earnings = Finite 17.5\<rparr>"] d
    by (simp add: true_divide_def)
qed

text \<open>
  Claim C1. The weighted average of a date is to be the sum of earnings times weight divided
  by the sum of the weights, both over the industry codes that have an earnings value and a
  weight. The code does not keep to it where an earnings value is null: with earnings
  (10, null) and weights (100, 300) it multiplies over the first row only but divides by the
  weights of both, and returns 1000/400 = 2.5 where the quotient over the rows that have both
  values is 1000/100 = 10.
\<close>

theorem null_earnings_weight_counterexample:
  "earn_group 1 df_null_earnings = [(Some 10, Some 100), (None, Some 300)]
   \<and> collapse_career df_null_earnings =
       Inr [\<lparr>out_date = 1, employment_thousands = Finite 400, avg_hourly_earnings = Finite 2.5\<rparr>]
   \<and> spec_weighted_average (earn_group 1 df_null_earnings) = Finite 10"
  by (simp add: df_null_earnings_def aggregator_defs spec_weighted_average_def)

lemma collapse_career_date_set:
  assumes "collapse_career df = Inr out"
  shows "out_date ` set out = date ` set (emp_rows df)
         \<and> (\<forall>r \<in> set out. out_date r \<notin> date ` set (earn_rows df) \<longrightarrow> avg_hourly_earnings r = NaN)"
proof -
  have "out_date ` set out = set (map out_date out)" by simp
  also have "\<dots> = date ` set (emp_rows df)"
    by (simp only: collapse_career_dates [OF assms] groupby_keys_set)
  finally have 1: "out_date ` set out = date ` set (emp_rows df)" .
  have "avg_hourly_earnings r = NaN"
    if "r \<in> set out" "out_date r \<notin> date ` set (earn_rows df)" for r
  proof -
    from that(1) assms obtain d where r: "r = out_at df d"
      by (auto simp: collapse_career_mem)
    with that(2) show ?thesis by (simp add: out_at_def)
  qed
  with 1 show ?thesis by blast
qed

text \<open>
  Claim C3 (amended). On an input with at least one earnings row, \<open>collapse_career\<close> returns
  a table whose dates are exactly the dates of the employment rows; a row of it whose date has
  no earnings row has a null weighted average. (A date that only earnings rows have is
  therefore not in the output.)
\<close>

theorem employment_dates_kept:
  assumes "earn_rows df \<noteq> []"
  shows "\<exists>out. collapse_career df = Inr out
           \<and> out_date ` set out = date ` set (emp_rows df)
           \<and> (\<forall>r \<in> set out. out_date r \<notin> date ` set (earn_rows df) \<longrightarrow> avg_hourly_earnings r = NaN)"
proof -
  from collapse_career_total [OF assms] obtain out where "collapse_career df = Inr out" ..
  with collapse_career_date_set [OF this] show ?thesis by blast
qed

theorem employment_dates_kept_witness:
  "earn_rows df_earnings_only_date \<noteq> []
   \<and> collapse_career df_earnings_only_date =
       Inr [\<lparr>out_date = 1, employment_thousands = Finite 100, avg_hourly_earnings = NaN\<rparr>]
   \<and> date ` set (emp_rows df_earnings_only_date) = {1}
   \<and> 1 \<notin> date ` set (earn_rows df_earnings_only_date)"
proof -
  have h: "earn_rows df_earnings_only_date \<noteq> []"
    by (simp add: df_earnings_only_date_def earn_rows_def EMP_TEXT_def AHE_TEXT_def)
  have e: "date ` set (emp_rows df_earnings_only_date) = {1}
      \<and> 1 \<notin> date ` set (earn_rows df_earnings_only_date)"
    by (simp add: df_earnings_only_date_def earn_rows_def emp_rows_def EMP_TEXT_def AHE_TEXT_def)
  from h e collapse_earnings_only_date employment_dates_kept [OF h] show ?thesis by blast
qed

text \<open>Employment in month 1, earnings in month 2: month 2 is not in the output.\<close>

theorem earnings_only_date_counterexample:
  "map date (earn_rows df_earnings_only_date) = [2]
   \<and> collapse_career df_earnings_only_date =
       Inr [\<lparr>out_date = 1, employment_thousands = Finite 100, avg_hourly_earnings = NaN\<rparr>]"
  by (simp add: df_earnings_only_date_def aggregator_defs)

lemma collapse_career_totals:
  assumes "collapse_career df = Inr out" and "r \<in> set out"
  shows "employment_thousands r =
           Finite (\<Sum>x\<leftarrow>filter (\<lambda>x. date x = out_date r \<and> obs_value x \<noteq> None) (emp_rows df). the (obs_value x))
         \<and> ((\<forall>x \<in> set (emp_rows df). date x = out_date r \<longrightarrow> obs_value x = None)
              \<longrightarrow> employment_thousands r = Finite 0)"
proof -
  from assms obtain d where r: "r = out_at df d"
    by (auto simp: collapse_career_mem)
  have 1: "employment_thousands r =
           Finite (\<Sum>x\<leftarrow>filter (\<lambda>x. date x = out_date r \<and> obs_value x \<noteq> None) (emp_rows df). the (obs_value x))"
    by (simp add: r out_at_def nansum_non_null conj_commute)
  have "filter (\<lambda>x. date x = out_date r \<and> obs_value x \<noteq> None) (emp_rows df) = []"
    if "\<forall>x \<in> set (emp_rows df). date x = out_date r \<longrightarrow> obs_value x = None"
    using that by (auto simp: filter_empty_conv)
  with 1 show ?thesis by auto
qed

text \<open>
  Claim C4 (amended). On an input with at least one earnings row, \<open>collapse_career\<close> returns
  a table in which the employment total of each row is the sum of the non-null employment
  values of its date; when all of them are null the total is 0, not null.
\<close>

theorem employment_total_skips_nulls:
  assumes "earn_rows df \<noteq> []"
  shows "\<exists>out. collapse_career df = Inr out \<and>
     (\<forall>r \<in> set out.
        employment_thousands r =
          Finite (\<Sum>x\<leftarrow>filter (\<lambda>x. date x = out_date r \<and> obs_value x \<noteq> None) (emp_rows df). the (obs_value x))
        \<and> ((\<forall>x \<in> set (emp_rows df). date x = out_date r \<longrightarrow> obs_value x = None)
              \<longrightarrow> employment_thousands r = Finite 0))"
proof -
  from collapse_career_total [OF assms] obtain out where out: "collapse_career df = Inr out" ..
  with collapse_career_totals [OF out] show ?thesis by blast
qed

theorem employment_total_skips_nulls_witness:
  "earn_rows df_null_employment \<noteq> []
   \<and> map obs_value (emp_rows df_null_employment) = [None]
   \<and> collapse_career df_null_employment =
       Inr [\<lparr>out_date = 1, employment_thousands = Finite 0, avg_hourly_earnings = NaN\<rparr>]"
proof -
  have h: "earn_rows df_null_employment \<noteq> []"
    by (simp add: df_null_employment_def earn_rows_def EMP_TEXT_def AHE_TEXT_def)
  have e: "map obs_value (emp_rows df_null_employment) = [None]"
    by (simp add: df_null_employment_def emp_rows_def EMP_TEXT_def AHE_TEXT_def)
  from h e collapse_null_employment employment_total_skips_nulls [OF h] show ?thesis by blast
qed

text \<open>A month whose only employment value is null gets the total 0.\<close>

theorem all_null_employment_counterexample:
  "map obs_value (emp_rows df_null_employment) = [None]
   \<and> collapse_career df_null_employment =
       Inr [\<lparr>out_date = 1, employment_thousands = Finite 0, avg_hourly_earnings = NaN\<rparr>]
   \<and> Finite 0 \<noteq> NaN"
  by (simp add: df_null_employment_def aggregator_defs)

text \<open>
  Claim C5 (amended). Provided there is at least one earnings row, \<open>collapse_career\<close>
  returns a table, and in it: a date whose merged weights are all null or zero has a null
  weighted average; a date whose weights sum to zero has a null weighted average when the
  weighted sum of earnings is zero too, and an infinite one otherwise. The division never
  raises.
\<close>

theorem zero_weight_average:
  assumes "earn_rows df \<noteq> []"
  shows "\<exists>out. collapse_career df = Inr out \<and>
     (\<forall>r \<in> set out.
        ((\<forall>(v, w) \<in> set (earn_group (out_date r) df). w = None \<or> w = Some 0)
           \<longrightarrow> avg_hourly_earnings r = NaN)
      \<and> ((\<Sum>(v, w)\<leftarrow>filter (\<lambda>(v, w). w \<noteq> None) (earn_group (out_date r) df). the w) = 0
           \<longrightarrow> avg_hourly_earnings r =
                 (if (\<Sum>(v, w)\<leftarrow>filter (\<lambda>(v, w). v \<noteq> None \<and> w \<noteq> None) (earn_group (out_date r) df).
                        the v * the w) = 0
                  then NaN else Infinite)))"
proof -
  from assms obtain out where out: "collapse_career df = Inr out"
    using collapse_career_total by blast
  have "avg_hourly_earnings r = weighted_mean (earn_group (out_date r) df)" if "r \<in> set out" for r
  proof -
    from that out obtain d where r: "r = out_at df d"
      by (auto simp: collapse_career_mem)
    show ?thesis
    proof (cases "d \<in> date ` set (earn_rows df)")
      case True
      then show ?thesis by (simp add: r out_at_def)
    next
      case False
      then show ?thesis
        by (simp add: r out_at_def earn_group_no_rows weighted_mean_def true_divide_def)
    qed
  qed
  moreover have "weighted_mean g = NaN" if "\<forall>(v, w) \<in> set g. w = None \<or> w = Some 0"
    for g :: "(rat option \<times> rat option) list"
    using nansum_null_or_zero [OF that] by (simp add: weighted_mean_def true_divide_def)
  moreover have "weighted_mean g =
      (if (\<Sum>(v, w)\<leftarrow>filter (\<lambda>(v, w). v \<noteq> None \<and> w \<noteq> None) g. the v * the w) = 0
       then NaN else Infinite)"
    if "(\<Sum>(v, w)\<leftarrow>filter (\<lambda>(v, w). w \<noteq> None) g. the w) = 0"
    for g :: "(rat option \<times> rat option) list"
    using that by (simp add: weighted_mean_def true_divide_def nansum_products nansum_weights)
  ultimately show ?thesis using out by simp
qed

theorem zero_weight_average_witness:
  "earn_rows df_zero_weights \<noteq> []
   \<and> earn_group 1 df_zero_weights = [(Some 10, Some 0), (Some 20, None)]
   \<and> collapse_career df_zero_weights =
       Inr [\<lparr>out_date = 1, employment_thousands = Finite 0, avg_hourly_earnings = NaN\<rparr>]"
proof -
  have h: "earn_rows df_zero_weights \<noteq> []"
    by (simp add: df_zero_weights_def aggregator_defs)
  have g: "earn_group 1 df_zero_weights = [(Some 10, Some 0), (Some 20, None)]"
    by (simp add: df_zero_weights_def aggregator_defs)
  show ?thesis
    using h g zero_weight_average [OF h] collapse_zero_weights by simp
qed

text \<open>Weights 5 and -5 sum to zero while the weighted earnings do not: the result is
  infinite, not null.\<close>

theorem cancelling_weights_counterexample:
  "earn_group 1 df_cancelling_weights = [(Some 10, Some 5), (Some 20, Some (- 5))]
   \<and> nansum (map snd (earn_group 1 df_cancelling_weights)) = 0
   \<and> collapse_career df_cancelling_weights =
       Inr [\<lparr>out_date = 1, employment_thousands = Finite 0, avg_hourly_earnings = Infinite\<rparr>]"
  by (simp add: df_cancelling_weights_def aggregator_defs)




section \<open>Properties of the date functions\<close>



lemma strip_no_trailing_space: "strip s \<noteq> [] \<Longrightarrow> \<not> isspace (last (strip s))"
proof -
  assume a: "strip s \<noteq> []"
  let ?t = "dropWhile isspace (rev (dropWhile isspace s))"
  from a have ne: "?t \<noteq> []" by (simp add: strip_def)
  then have "\<not> isspace (hd ?t)" by (rule hd_dropWhile)
  moreover have "last (strip s) = hd ?t" using ne by (simp add: strip_def last_rev)
  ultimately show ?thesis by simp
qed








lemmas date_defs = make_monthly_date_def make_date_def month_text_def py_int_def unsigned_def
  digits_value_def strip_def isspace_def digit_val_def zfill_def str_int_def str_nat.simps and_then_def

lemma month_text_codes:
  "\<forall>c \<in> set monthly_codes. month_text c = Inr (drop 1 c) \<and> month_text (c @ [CHR 0x0A]) = Inr (drop 1 c)"
  by (simp add: monthly_codes_def date_defs)

lemma monthly_match_cases:
  assumes "monthly_match p"
  obtains a b rest where "p = CHR ''M'' # a # b # rest"
    and "(a = CHR ''0'' \<and> b \<in> set ''123456789'') \<or> (a = CHR ''1'' \<and> b \<in> set ''012'')"
    and "rest = [] \<or> rest = [CHR 0x0A]"
proof (cases p)
  case Nil
  with assms show ?thesis by (simp add: monthly_match_def)
next
  case p1: (Cons m p')
  show ?thesis
  proof (cases p')
    case Nil
    with assms p1 show ?thesis by (simp add: monthly_match_def)
  next
    case p2: (Cons a p'')
    show ?thesis
    proof (cases p'')
      case Nil
      with assms p1 p2 show ?thesis by (simp add: monthly_match_def)
    next
      case (Cons b rest)
      with assms p1 p2 that [of a b rest] show ?thesis
        by (simp add: monthly_match_def)
    qed
  qed
qed

lemma two_digit_month:
  assumes "(a = CHR ''0'' \<and> b \<in> set ''123456789'') \<or> (a = CHR ''1'' \<and> b \<in> set ''012'')"
  shows "[CHR ''M'', a, b] \<in> set monthly_codes"
  using assms by (auto simp: monthly_codes_def)

lemma monthly_codes_match:
  "\<forall>c \<in> set monthly_codes. monthly_match c \<and> monthly_match (c @ [CHR 0x0A])"
  by (simp add: monthly_codes_def monthly_match_def)

lemma monthly_match_iff:
  "monthly_match p \<longleftrightarrow> p \<in> set monthly_codes \<or> (\<exists>c \<in> set monthly_codes. p = c @ [CHR 0x0A])"
proof
  assume "monthly_match p"
  then obtain a b rest where p: "p = CHR ''M'' # a # b # rest"
    and ab: "(a = CHR ''0'' \<and> b \<in> set ''123456789'') \<or> (a = CHR ''1'' \<and> b \<in> set ''012'')"
    and r: "rest = [] \<or> rest = [CHR 0x0A]"
    by (rule monthly_match_cases)
  note c = two_digit_month [OF ab]
  from r show "p \<in> set monthly_codes \<or> (\<exists>c \<in> set monthly_codes. p = c @ [CHR 0x0A])"
  proof
    assume "rest = []"
    with p c show ?thesis by simp
  next
    assume "rest = [CHR 0x0A]"
    with p have "p = [CHR ''M'', a, b] @ [CHR 0x0A]" by simp
    with c show ?thesis by blast
  qed
next
  assume "p \<in> set monthly_codes \<or> (\<exists>c \<in> set monthly_codes. p = c @ [CHR 0x0A])"
  with monthly_codes_match show "monthly_match p" by blast
qed

lemma month_text_survivor:
  assumes "monthly_match p"
  shows "\<exists>c \<in> set monthly_codes. month_text p = Inr (drop 1 c)"
  using assms month_text_codes unfolding monthly_match_iff by auto




section \<open>Properties of the extractor\<close>

lemma monthly_only_periods:
  "r \<in> set (monthly_only data) \<Longrightarrow> \<exists>p. raw_period r = Some p \<and> monthly_match p"
  by (auto simp: monthly_only_def split: option.splits)

lemma extract_filter_rows:
  assumes "(r, m) \<in> set (extract_filter data series_dict predicate whitelist seasonal)"
  shows "r \<in> set (monthly_only data)"
proof -
  have "set (extract_filter data series_dict predicate whitelist seasonal)
          \<subseteq> set (merge_left raw_series_id dict_series_id (monthly_only data) series_dict)"
    by (auto simp: extract_filter_def Let_def split: option.splits)
  with assms have "r \<in> fst ` set (merge_left raw_series_id dict_series_id (monthly_only data) series_dict)"
    by force
  then show ?thesis by (simp only: merge_left_left_rows)
qed

lemma series_apply_total:
  "(\<forall>x \<in> set xs. \<exists>y. f x = Inr y) \<Longrightarrow> \<exists>ys. series_apply f xs = Inr ys"
proof (induction xs)
  case Nil
  then show ?case by simp
next
  case (Cons x xs)
  then obtain y ys where "f x = Inr y" "series_apply f xs = Inr ys" by auto
  then show ?case by (simp add: and_then_def)
qed

lemma extract_total:
  "\<exists>out. extract_proxy_dataset to_numeric to_datetime data series_dict predicate whitelist seasonal = Inr out"
proof -
  let ?df = "extract_filter data series_dict predicate whitelist seasonal"
  have "\<exists>d. make_monthly_date to_datetime (raw_year r) (raw_period r) = Inr d" if "(r, m) \<in> set ?df" for r m
  proof -
    from monthly_only_periods [OF extract_filter_rows [OF that]]
    obtain p where p: "raw_period r = Some p" "monthly_match p" by blast
    from month_text_survivor [OF p(2)] p(1) show ?thesis
      by (cases "raw_year r") (auto simp: make_monthly_date_def and_then_def)
  qed
  then have "\<forall>x \<in> set ?df. \<exists>d. (\<lambda>(r, m). make_monthly_date to_datetime (raw_year r) (raw_period r)) x = Inr d"
    by auto
  from series_apply_total [OF this] show ?thesis
    by (auto simp: extract_proxy_dataset_def Let_def and_then_def)
qed

lemma extract_periods:
  assumes "extract_proxy_dataset to_numeric to_datetime data series_dict predicate whitelist seasonal = Inr out"
    and "x \<in> set out"
  shows "\<exists>r \<in> set (monthly_only data). x_period x = raw_period r"
proof -
  let ?df = "extract_filter data series_dict predicate whitelist seasonal"
  from assms(1) obtain dates where "set out = extract_row_of to_numeric ` set (zip dates ?df)"
    by (auto simp: extract_proxy_dataset_def Let_def and_then_Inr)
  with assms(2) obtain q where q: "q \<in> set (zip dates ?df)" and x: "x = extract_row_of to_numeric q"
    by auto
  obtain d r m where qq: "q = (d, r, m)" by (cases q) auto
  with q have "(r, m) \<in> set ?df" by (auto dest: set_zip_rightD)
  from extract_filter_rows [OF this] x qq show ?thesis by (auto simp: extract_row_of_def)
qed

lemma newline_is_space: "isspace (CHR 0x0A)"
  by (simp add: isspace_def)

lemma stripped_monthly_code:
  assumes "monthly_match (strip p)"
  shows "strip p \<in> set monthly_codes"
proof -
  from assms consider "strip p \<in> set monthly_codes"
    | c where "c \<in> set monthly_codes" "strip p = c @ [CHR 0x0A]"
    unfolding monthly_match_iff by blast
  then show ?thesis
  proof cases
    case 1
    then show ?thesis .
  next
    case 2
    then have "strip p \<noteq> []" and "last (strip p) = CHR 0x0A" by simp_all
    with strip_no_trailing_space [of p] newline_is_space show ?thesis by simp
  qed
qed

lemma prep_monthly_only_periods:
  assumes "r \<in> set (prep_monthly_only data)"
  shows "raw_period r \<in> Some ` set monthly_codes"
proof -
  from assms obtain r0 :: raw_row where r: "raw_period r = map_option strip (raw_period r0)"
    and "r \<in> set (monthly_only (map (\<lambda>r. r\<lparr>raw_series_id := map_option strip (raw_series_id r),
                                raw_period := map_option strip (raw_period r)\<rparr>) data))"
    by (auto simp: prep_monthly_only_def monthly_only_def)
  from monthly_only_periods [OF this(2)] r obtain p0 where "raw_period r = Some (strip p0)"
      and "monthly_match (strip p0)"
    by (cases "raw_period r0") auto
  with stripped_monthly_code show ?thesis by auto
qed

lemmas extract_defs = extract_proxy_dataset_def extract_filter_def monthly_only_def monthly_match_def
  merge_left_def dict_cell_def na_last_def code_matches_def startswith_def whole_number_def
  first_of_month_def extract_row_of_def

lemma extract_example:
  "extract_proxy_dataset whole_number first_of_month data_ex dict_ex (code_matches [''0000''])
       [''ALL EMPLOYEES, THOUSANDS''] None =
     Inr [\<lparr>x_date = Some (2020, 1), x_year = Some ''2020'', x_period = Some (''M01'' @ [CHR 0x0A]),
           x_series_id = Some ''CES0000000001'', x_seasonal = Some ''S'',
           x_industry_code = Some ''00000000'', x_industry_name = Some ''Total nonfarm'',
           x_datatype_code = Some ''01'', x_datatype_text = Some ''ALL EMPLOYEES, THOUSANDS'',
           x_value = Some 152212\<rparr>,
          \<lparr>x_date = Some (2020, 2), x_year = Some ''2020'', x_period = Some ''M02'',
           x_series_id = Some ''CES0000000001'', x_seasonal = Some ''S'',
           x_industry_code = Some ''00000000'', x_industry_name = Some ''Total nonfarm'',
           x_datatype_code = Some ''01'', x_datatype_text = Some ''ALL EMPLOYEES, THOUSANDS'',
           x_value = Some 152523\<rparr>]"
  by (simp add: data_ex_def dict_ex_def extract_defs date_defs)

text \<open>
  What the monthly filters let through. \<open>extract_proxy_dataset\<close> always returns a table, and
  every row of it has a period code that matches the monthly pattern: one of M01..M12, or one
  of them followed by a single newline, which the pattern's \<open>$\<close> admits. No other period
  code, annual or quarterly, appears. In prep\_CES\_pandas.py, where the period is stripped
  before the same pattern is applied, every row kept has one of the twelve codes M01..M12.
\<close>

theorem extracted_periods_monthly:
  "(\<exists>out. extract_proxy_dataset to_numeric to_datetime data series_dict predicate whitelist seasonal = Inr out
        \<and> (\<forall>x \<in> set out. \<exists>c \<in> set monthly_codes.
               x_period x = Some c \<or> x_period x = Some (c @ [CHR 0x0A])))
   \<and> (\<forall>r \<in> set (prep_monthly_only data). raw_period r \<in> Some ` set monthly_codes)"
proof -
  obtain out where out: "extract_proxy_dataset to_numeric to_datetime data series_dict predicate
      whitelist seasonal = Inr out"
    using extract_total by blast
  have "\<exists>c \<in> set monthly_codes. x_period x = Some c \<or> x_period x = Some (c @ [CHR 0x0A])"
    if "x \<in> set out" for x
  proof -
    from extract_periods [OF out that] obtain r where "r \<in> set (monthly_only data)"
      and x: "x_period x = raw_period r" by blast
    from monthly_only_periods [OF this(1)] obtain p where "raw_period r = Some p" "monthly_match p"
      by blast
    with x show ?thesis unfolding monthly_match_iff by auto
  qed
  with out prep_monthly_only_periods show ?thesis by blast
qed

theorem extracted_periods_example:
  "map x_period (projr (extract_proxy_dataset whole_number first_of_month data_ex dict_ex
       (code_matches [''0000'']) [''ALL EMPLOYEES, THOUSANDS''] None))
     = [Some (''M01'' @ [CHR 0x0A]), Some ''M02'']
   \<and> ''M01'' \<in> set monthly_codes \<and> ''M02'' \<in> set monthly_codes
   \<and> map raw_period (prep_monthly_only data_ex) = [Some ''M02'', Some ''M01'']"
proof -
  have a: "map x_period (projr (extract_proxy_dataset whole_number first_of_month data_ex dict_ex
       (code_matches [''0000'']) [''ALL EMPLOYEES, THOUSANDS''] None))
     = [Some (''M01'' @ [CHR 0x0A]), Some ''M02'']"
    by (simp add: extract_example)
  have b: "''M01'' \<in> set monthly_codes \<and> ''M02'' \<in> set monthly_codes"
    by (simp add: monthly_codes_def)
  have c: "map raw_period (prep_monthly_only data_ex) = [Some ''M02'', Some ''M01'']"
    by (simp add: prep_monthly_only_def monthly_only_def monthly_match_def data_ex_def strip_def
        isspace_def)
  from a b c extracted_periods_monthly [of whole_number first_of_month data_ex dict_ex
      "code_matches [''0000'']" "[''ALL EMPLOYEES, THOUSANDS'']" None]
  show ?thesis by blast
qed

text \<open>
  Claim C8. Every row of the extracted output is to have one of the twelve monthly period
  codes. \<open>extract_proxy_dataset\<close> does not keep to it for a period code that ends in a
  newline: the observation whose period code is M01 followed by a newline passes its filter
  and is in its output, with a period code that is none of the twelve.
\<close>

theorem newline_period_counterexample:
  "extract_proxy_dataset whole_number first_of_month data_ex dict_ex (code_matches [''0000''])
       [''ALL EMPLOYEES, THOUSANDS''] None =
     Inr [\<lparr>x_date = Some (2020, 1), x_year = Some ''2020'', x_period = Some (''M01'' @ [CHR 0x0A]),
           x_series_id = Some ''CES0000000001'', x_seasonal = Some ''S'',
           x_industry_code = Some ''00000000'', x_industry_name = Some ''Total nonfarm'',
           x_datatype_code = Some ''01'', x_datatype_text = Some ''ALL EMPLOYEES, THOUSANDS'',
           x_value = Some 152212\<rparr>,
          \<lparr>x_date = Some (2020, 2), x_year = Some ''2020'', x_period = Some ''M02'',
           x_series_id = Some ''CES0000000001'', x_seasonal = Some ''S'',
           x_industry_code = Some ''00000000'', x_industry_name = Some ''Total nonfarm'',
           x_datatype_code = Some ''01'', x_datatype_text = Some ''ALL EMPLOYEES, THOUSANDS'',
           x_value = Some 152523\<rparr>]
   \<and> ''M01'' @ [CHR 0x0A] \<notin> set monthly_codes"
  by (simp add: extract_example monthly_codes_def)

end
